(* ===== verification/Prelude.thy ===== *)
theory Prelude
  imports Complex_Main
begin

text \<open>
  Shared vocabulary of the development: the Python exceptions the script can
  raise, Python's numeric primitives as the script uses them (floor division
  on \<open>int\<close>, true division and \<open>int()\<close> truncation on floats), and a small
  state-and-exception monad in which the effectful parts of
  \<open>src/results_scnn_with_augmentation.py\<close> are written: an action takes the
  world and returns either an exception (\<open>Inl\<close>) or a value (\<open>Inr\<close>),
  together with the world as it is after the action, so that effects that
  happened before an exception are kept, as they are in Python.
\<close>

named_theorems py_simps "evaluation rules of the Python primitives"
named_theorems act_simps "evaluation rules of the action combinators"

section \<open>Python values and exceptions\<close>

text \<open>
  Python floats are modelled by exact rationals: the script only stores,
  prints, compares and divides them, and every division it performs is
  exact on the inputs it is used with (see \<open>Hyperparams\<close>).
\<close>

type_synonym pyfloat = rat

datatype exc =
    ValueError string
  | IndexError string
  | ZeroDivisionError
  | ExternalError string \<comment> \<open>any exception raised inside a collaborator\<close>

text \<open>Python's \<open>a / b\<close> on numbers: a float, or \<open>ZeroDivisionError\<close>.\<close>

definition py_truediv :: "pyfloat \<Rightarrow> pyfloat \<Rightarrow> exc + pyfloat" where
  "py_truediv a b = (if b = 0 then Inl ZeroDivisionError else Inr (a / b))"

text \<open>Python's \<open>int(x)\<close> on a float truncates towards zero.\<close>

definition py_int :: "pyfloat \<Rightarrow> int" where
  "py_int x = (if 0 \<le> x then \<lfloor>x\<rfloor> else \<lceil>x\<rceil>)"

section \<open>Actions: state passing with exceptions\<close>

type_synonym ('s, 'a) act = "'s \<Rightarrow> (exc + 'a) \<times> 's"

definition act_return :: "'a \<Rightarrow> ('s, 'a) act" where
  "act_return x = (\<lambda>s. (Inr x, s))"

definition act_raise :: "exc \<Rightarrow> ('s, 'a) act" where
  "act_raise e = (\<lambda>s. (Inl e, s))"

text \<open>Sequencing: an exception skips the rest and keeps the state it was raised in.\<close>

definition act_bind :: "('s, 'a) act \<Rightarrow> ('a \<Rightarrow> ('s, 'b) act) \<Rightarrow> ('s, 'b) act" where
  "act_bind m f = (\<lambda>s. case m s of (Inl e, s') \<Rightarrow> (Inl e, s') | (Inr x, s') \<Rightarrow> f x s')"

text \<open>A pure computation that may raise, lifted into an action.\<close>

definition act_lift :: "exc + 'a \<Rightarrow> ('s, 'a) act" where
  "act_lift r = (\<lambda>s. (r, s))"

definition act_update :: "('s \<Rightarrow> 's) \<Rightarrow> ('s, unit) act" where
  "act_update g = (\<lambda>s. (Inr (), g s))"

text \<open>Reading the state without changing it.\<close>

definition act_get :: "('s \<Rightarrow> 'a) \<Rightarrow> ('s, 'a) act" where
  "act_get g = (\<lambda>s. (Inr (g s), s))"

definition raises_only :: "(exc \<Rightarrow> bool) \<Rightarrow> ('s, 'a) act \<Rightarrow> bool" where
  "raises_only P m \<longleftrightarrow> (\<forall>s e s'. m s = (Inl e, s') \<longrightarrow> P e)"

text \<open>\<open>result_indep m\<close>: what \<open>m\<close> returns or raises does not depend on the state.\<close>

definition result_indep :: "('s, 'a) act \<Rightarrow> bool" where
  "result_indep m \<longleftrightarrow> (\<forall>s1 s2. fst (m s1) = fst (m s2))"

section \<open>Evaluation rules\<close>

lemma py_truediv_nonzero [py_simps]: "b \<noteq> 0 \<Longrightarrow> py_truediv a b = Inr (a / b)"
  by (simp add: py_truediv_def)

lemma py_truediv_zero [py_simps]: "py_truediv a 0 = Inl ZeroDivisionError"
  by (simp add: py_truediv_def)

lemma py_int_nonneg [py_simps]: "0 \<le> x \<Longrightarrow> py_int x = \<lfloor>x\<rfloor>"
  by (simp add: py_int_def)

text \<open>
  Truncating the exact quotient of two naturals is natural-number division:
  the fact that lets \<open>int(a / b / c)\<close> be read as \<open>a // (b * c)\<close>.
\<close>

lemma py_int_of_nat_div [py_simps]:
  "py_int (of_nat a / of_nat b) = int (a div b)"
proof -
  have "0 \<le> (of_nat a / of_nat b :: rat)" by simp
  then have "py_int (of_nat a / of_nat b) = \<lfloor>of_nat a / (of_nat b :: rat)\<rfloor>"
    by (rule py_int_nonneg)
  also have "\<dots> = int (a div b)"
    by (metis floor_divide_of_nat_eq of_int_of_nat_eq floor_of_int)
  finally show ?thesis .
qed

lemma act_bind_return [act_simps]: "act_bind (act_return x) f s = f x s"
  by (simp add: act_bind_def act_return_def)

lemma act_bind_raise [act_simps]: "act_bind (act_raise e) f s = (Inl e, s)"
  by (simp add: act_bind_def act_raise_def)

lemma act_bind_lift_Inr [act_simps]: "act_bind (act_lift (Inr x)) f s = f x s"
  by (simp add: act_bind_def act_lift_def)

lemma act_bind_lift_Inl [act_simps]: "act_bind (act_lift (Inl e)) f s = (Inl e, s)"
  by (simp add: act_bind_def act_lift_def)

lemma act_bind_update [act_simps]: "act_bind (act_update g) f s = f () (g s)"
  by (simp add: act_bind_def act_update_def)

lemma act_bind_get [act_simps]: "act_bind (act_get g) f s = f (g s) s"
  by (simp add: act_bind_def act_get_def)

lemma act_get_apply [act_simps]: "act_get g s = (Inr (g s), s)"
  by (simp add: act_get_def)

lemma act_return_apply [act_simps]: "act_return x s = (Inr x, s)"
  by (simp add: act_return_def)

lemma act_raise_apply [act_simps]: "act_raise e s = (Inl e, s)"
  by (simp add: act_raise_def)

lemma act_lift_apply [act_simps]: "act_lift r s = (r, s)"
  by (simp add: act_lift_def)

lemma act_update_apply [act_simps]: "act_update g s = (Inr (), g s)"
  by (simp add: act_update_def)

lemma act_bind_assoc:
  "act_bind (act_bind m f) g = act_bind m (\<lambda>x. act_bind (f x) g)"
  by (rule ext) (simp add: act_bind_def split: prod.splits sum.splits)

lemma act_bind_Inl:
  "m s = (Inl e, s') \<Longrightarrow> act_bind m f s = (Inl e, s')"
  by (simp add: act_bind_def)

lemma act_bind_Inr:
  "m s = (Inr x, s') \<Longrightarrow> act_bind m f s = f x s'"
  by (simp add: act_bind_def)

section \<open>Which exceptions an action can raise\<close>

text \<open>
  \<open>raises_only P m\<close>: every exception \<open>m\<close> raises satisfies \<open>P\<close>. One rule
  per combinator, so that a long sequence of actions is handled by
  \<open>intro\<close> rules, each obligation about one step.
\<close>

lemma raises_only_return: "raises_only P (act_return x)"
  by (simp add: raises_only_def act_simps)

lemma raises_only_lift:
  "(\<And>e. r = Inl e \<Longrightarrow> P e) \<Longrightarrow> (\<And>x. r = Inr x \<Longrightarrow> raises_only P (f x))
   \<Longrightarrow> raises_only P (act_bind (act_lift r) f)"
  by (cases r) (auto simp: raises_only_def act_simps)

lemma raises_only_update:
  "(\<And>x. raises_only P (f x)) \<Longrightarrow> raises_only P (act_bind (act_update g) f)"
  by (simp add: raises_only_def act_simps)

lemma raises_only_case_prod:
  "(\<And>a b. raises_only P (f a b)) \<Longrightarrow> raises_only P (case p of (a, b) \<Rightarrow> f a b)"
  by (cases p) simp

section \<open>State-independent results\<close>

lemma result_indep_return: "result_indep (act_return x)"
  by (simp add: result_indep_def act_simps)

lemma result_indep_bind:
  assumes "result_indep m" and "\<And>x. result_indep (f x)"
  shows "result_indep (act_bind m f)"
  unfolding result_indep_def
proof (intro allI)
  fix s1 s2
  have "fst (m s1) = fst (m s2)" using assms(1) by (simp add: result_indep_def)
  then show "fst (act_bind m f s1) = fst (act_bind m f s2)"
    using assms(2) by (auto simp: act_bind_def result_indep_def split: prod.splits sum.splits)
qed

lemma result_indep_case_prod:
  "(\<And>a b. result_indep (f a b)) \<Longrightarrow> result_indep (case p of (a, b) \<Rightarrow> f a b)"
  by (cases p) simp

end
