(* ===== verification/Hyperparams.thy ===== *)
theory Hyperparams
  imports Prelude
begin

text \<open>
  Hyperparameter derivation of \<open>single_experiment\<close> in
  \<open>src/results_scnn_with_augmentation.py\<close>: the sampling schedule
  \<open>nsides\<close> (lines 29--42), the per-order table of epochs, batch size, feature
  maps, polynomial orders, batch-norm flags and regularisation (lines 66--88),
  the order-independent settings (lines 48--64 and 90--99) and the derived
  evaluation cadence \<open>eval_frequency\<close> (lines 101--103). Each \<open>if/elif/else raise\<close>
  chain is a definition returning \<open>exc + _\<close>; the \<open>params\<close> dictionary, whose
  keys are fixed, is a record. The theory also states the specification's
  halving formula for the schedule and proves that the chain of lines 29--42
  implements it for every base resolution; the per-order table is restated
  over the closed enumeration {1, 2, 4} (\<open>spec_table\<close>) only to derive the
  layer-length and \<open>eval_frequency\<close> facts.
\<close>

section \<open>The sampling schedule\<close>

text \<open>Lines 29--42; \<open>//\<close> on Python ints is \<open>div\<close> on \<open>int\<close> (both floor).\<close>

definition nsides_of :: "int \<Rightarrow> int \<Rightarrow> exc + int list" where
  "nsides_of nside order =
    (if order = 4 then Inr [nside, nside div 2, nside div 4, min (nside div 8) 128]
     else if order = 2 then
       Inr [nside, nside div 2, nside div 4, nside div 8, min (nside div 16) 128]
     else if order = 1 then
       Inr [nside, nside div 2, nside div 4, nside div 8, nside div 16,
            min (nside div 32) 64]
     else Inl (ValueError ''No parameters for this value of order.''))"

text \<open>Line 15: the base resolution.\<close>

definition Nside :: int where
  "Nside = 1024"

section \<open>The per-order table\<close>

record order_config =
  num_epochs :: nat
  batch_size :: nat
  F :: "nat list"
  K :: "nat list"
  batch_norm :: "bool list"
  regularization :: pyfloat

text \<open>Lines 66--88; \<open>[10] * 4\<close> is \<open>replicate 4 10\<close>, \<open>2e-4\<close> is \<open>2 / 10000\<close>.\<close>

definition order_params :: "int \<Rightarrow> exc + order_config" where
  "order_params order =
    (if order = 4 then Inr
       \<lparr>num_epochs = 80, batch_size = 20, F = [40, 160, 320, 20],
        K = replicate 4 10, batch_norm = replicate 4 True, regularization = 2 / 10000\<rparr>
     else if order = 2 then Inr
       \<lparr>num_epochs = 250, batch_size = 15, F = [10, 80, 320, 40, 10],
        K = replicate 5 10, batch_norm = replicate 5 True, regularization = 4 / 10000\<rparr>
     else if order = 1 then Inr
       \<lparr>num_epochs = 700, batch_size = 10, F = [10, 40, 160, 40, 20, 10],
        K = replicate 6 10, batch_norm = replicate 6 True, regularization = 4 / 10000\<rparr>
     else Inl (ValueError ''No parameter for this value of order.''))"

section \<open>The evaluation cadence\<close>

text \<open>
  Line 103: \<open>int(num_epochs * training.N / batch_size / n_evaluations)\<close>, two
  true divisions (each raising \<open>ZeroDivisionError\<close> on a zero divisor) and a
  truncation.
\<close>

definition eval_frequency_of :: "nat \<Rightarrow> nat \<Rightarrow> nat \<Rightarrow> nat \<Rightarrow> exc + int" where
  "eval_frequency_of epochs n bs n_evaluations =
    (case py_truediv (of_nat (epochs * n)) (of_nat bs) of
       Inl e \<Rightarrow> Inl e
     | Inr q \<Rightarrow>
         (case py_truediv q (of_nat n_evaluations) of
            Inl e \<Rightarrow> Inl e
          | Inr r \<Rightarrow> Inr (py_int r)))"

text \<open>Line 102.\<close>

definition n_evaluations :: nat where
  "n_evaluations = 200"

section \<open>The parameter record\<close>

text \<open>
  The \<open>params\<close> dictionary of lines 51--103, with its keys as fields; the
  per-order fields come from \<open>order_config\<close>. \<open>'i\<close> is the type of the
  \<open>indexes\<close> value produced by the external \<open>utils.nside2indexes\<close>.
\<close>

record 'i scnn_params = order_config +
  dir_name :: string
  conv :: string
  pool :: string
  activation :: string
  statistics :: "string option"
  nsides :: "int list"
  indexes :: 'i
  M :: "nat list"
  decay_rate :: pyfloat
  dropout :: pyfloat
  learning_rate :: pyfloat
  momentum :: pyfloat
  adam :: bool
  decay_steps :: pyfloat
  use_4 :: bool
  eval_frequency :: int

text \<open>Line 14 and line 48.\<close>

definition use_stat_layer :: bool where
  "use_stat_layer = False"

definition n_classes :: nat where
  "n_classes = 2"

text \<open>
  Lines 51--103 once \<open>nsides\<close>, \<open>indexes\<close> and the per-order table are known;
  \<open>n\<close> is \<open>training.N\<close>, the size of the noise-augmented training set.
\<close>

definition build_params ::
  "string \<Rightarrow> int list \<Rightarrow> 'i \<Rightarrow> order_config \<Rightarrow> nat \<Rightarrow> exc + 'i scnn_params" where
  "build_params name ns idx cfg n =
    (case eval_frequency_of (num_epochs cfg) n (batch_size cfg) n_evaluations of
       Inl e \<Rightarrow> Inl e
     | Inr ef \<Rightarrow> Inr
         \<lparr>num_epochs = num_epochs cfg, batch_size = batch_size cfg, F = F cfg, K = K cfg,
          batch_norm = batch_norm cfg, regularization = regularization cfg,
          dir_name = name, conv = ''chebyshev5'', pool = ''max'', activation = ''relu'',
          statistics = (if use_stat_layer then Some ''meanvar'' else None),
          nsides = ns, indexes = idx, M = [100, n_classes],
          decay_rate = 98 / 100, dropout = 1 / 2, learning_rate = 1 / 10000,
          momentum = 9 / 10, adam = True, decay_steps = 1536 / 10, use_4 = False,
          eval_frequency = ef\<rparr>)"

section \<open>The specification's view\<close>

text \<open>
  The specification (sections 4.1 and 9) describes the configuration as a
  lookup table over the closed enumeration {1, 2, 4} and the schedule as
  \<open>k\<close> successive halvings of \<open>N\<close> followed by one level floored at a
  minimum resolution.
\<close>

datatype pool_order = Order1 | Order2 | Order4

fun order_value :: "pool_order \<Rightarrow> int" where
  "order_value Order1 = 1"
| "order_value Order2 = 2"
| "order_value Order4 = 4"

definition order_of_int :: "int \<Rightarrow> pool_order option" where
  "order_of_int i =
    (if i = 1 then Some Order1 else if i = 2 then Some Order2
     else if i = 4 then Some Order4 else None)"

fun spec_table :: "pool_order \<Rightarrow> order_config" where
  "spec_table Order4 =
     \<lparr>num_epochs = 80, batch_size = 20, F = [40, 160, 320, 20],
      K = replicate 4 10, batch_norm = replicate 4 True, regularization = 2 / 10000\<rparr>"
| "spec_table Order2 =
     \<lparr>num_epochs = 250, batch_size = 15, F = [10, 80, 320, 40, 10],
      K = replicate 5 10, batch_norm = replicate 5 True, regularization = 4 / 10000\<rparr>"
| "spec_table Order1 =
     \<lparr>num_epochs = 700, batch_size = 10, F = [10, 40, 160, 40, 20, 10],
      K = replicate 6 10, batch_norm = replicate 6 True, regularization = 4 / 10000\<rparr>"

text \<open>Number of halvings before the floored level, and the floor.\<close>

fun halvings :: "pool_order \<Rightarrow> nat" where
  "halvings Order4 = 3"
| "halvings Order2 = 4"
| "halvings Order1 = 5"

fun floor_res :: "pool_order \<Rightarrow> int" where
  "floor_res Order4 = 128"
| "floor_res Order2 = 128"
| "floor_res Order1 = 64"

definition spec_schedule :: "pool_order \<Rightarrow> int \<Rightarrow> int list" where
  "spec_schedule x nside =
     map (\<lambda>i. nside div 2 ^ i) [0..<halvings x] @ [min (nside div 2 ^ halvings x) (floor_res x)]"

section \<open>Characterisation lemmas\<close>

lemma nsides_of_spec:
  "nsides_of nside order =
    (case order_of_int order of
       Some x \<Rightarrow> Inr (spec_schedule x nside)
     | None \<Rightarrow> Inl (ValueError ''No parameters for this value of order.''))"
  by (simp add: nsides_of_def order_of_int_def spec_schedule_def upt_rec)

lemma order_params_spec:
  "order_params order =
    (case order_of_int order of
       Some x \<Rightarrow> Inr (spec_table x)
     | None \<Rightarrow> Inl (ValueError ''No parameter for this value of order.''))"
  by (simp add: order_params_def order_of_int_def)

lemma order_of_int_value [simp]: "order_of_int (order_value x) = Some x"
  by (cases x) (simp_all add: order_of_int_def)

lemma order_of_int_Some: "order_of_int order = Some x \<Longrightarrow> order = order_value x"
  by (simp add: order_of_int_def split: if_splits)

lemma order_of_int_None: "order_of_int order = None \<longleftrightarrow> order \<notin> {1, 2, 4}"
  by (simp add: order_of_int_def)

lemma nsides_of_Inr:
  "nsides_of nside order = Inr ns \<Longrightarrow>
     \<exists>x. order_of_int order = Some x \<and> ns = spec_schedule x nside"
  by (simp add: nsides_of_spec split: option.splits)

lemma order_params_Inr:
  "order_params order = Inr cfg \<Longrightarrow>
     \<exists>x. order_of_int order = Some x \<and> cfg = spec_table x"
  by (simp add: order_params_spec split: option.splits)

lemma div_pow2_antitone: "0 \<le> (n::int) \<Longrightarrow> i \<le> j \<Longrightarrow> n div 2 ^ j \<le> n div 2 ^ i"
  by (simp add: zdiv_mono2 power_increasing)

lemma halvings_antitone:
  "0 \<le> (n::int) \<Longrightarrow> sorted_wrt (\<lambda>a b. n div 2 ^ b \<le> n div 2 ^ a) [0..<k]"
  by (rule sorted_wrt_mono_rel [OF _ sorted_wrt_upt]) (simp add: div_pow2_antitone)

lemma spec_schedule_antitone: "0 \<le> n \<Longrightarrow> sorted_wrt (\<ge>) (spec_schedule x n)"
  by (auto simp: spec_schedule_def sorted_wrt_append sorted_wrt_map halvings_antitone
      div_pow2_antitone min.coboundedI1)

lemma spec_schedule_length: "length (spec_schedule x n) = Suc (halvings x)"
  by (simp add: spec_schedule_def)

lemma spec_schedule_last: "last (spec_schedule x n) = min (n div 2 ^ halvings x) (floor_res x)"
  by (simp add: spec_schedule_def)

lemma spec_schedule_Nside:
  "spec_schedule x Nside = map (\<lambda>i. Nside div 2 ^ i) [0..<Suc (halvings x)]"
  by (cases x) (simp_all add: spec_schedule_def Nside_def upt_rec)

lemma spec_schedule_Nside_strict: "sorted_wrt (>) (spec_schedule x Nside)"
  by (cases x) (simp_all add: spec_schedule_def Nside_def upt_rec)

lemma spec_table_lengths:
  "length (F (spec_table x)) = Suc (halvings x) \<and> length (K (spec_table x)) = Suc (halvings x)
   \<and> length (batch_norm (spec_table x)) = Suc (halvings x)"
  by (cases x) simp_all

lemma spec_table_batch_size_pos: "0 < batch_size (spec_table x)"
  by (cases x) simp_all

lemma eval_frequency_of_div:
  "bs \<noteq> 0 \<Longrightarrow> ne \<noteq> 0 \<Longrightarrow> eval_frequency_of e n bs ne = Inr (int (e * n div (bs * ne)))"
proof -
  assume "bs \<noteq> 0" "ne \<noteq> 0"
  then have "eval_frequency_of e n bs ne = Inr (py_int (of_nat (e * n) / of_nat bs / of_nat ne))"
    by (simp add: eval_frequency_of_def py_simps)
  also have "of_nat (e * n) / of_nat bs / of_nat ne = (of_nat (e * n) / of_nat (bs * ne) :: rat)"
    by simp
  finally show ?thesis by (simp only: py_int_of_nat_div)
qed

lemma build_params_eq:
  "bs \<noteq> 0 \<Longrightarrow> batch_size cfg = bs \<Longrightarrow>
   build_params name ns idx cfg n =
     Inr \<lparr>num_epochs = num_epochs cfg, batch_size = bs, F = F cfg, K = K cfg,
          batch_norm = batch_norm cfg, regularization = regularization cfg,
          dir_name = name, conv = ''chebyshev5'', pool = ''max'', activation = ''relu'',
          statistics = None, nsides = ns, indexes = idx, M = [100, 2],
          decay_rate = 98 / 100, dropout = 1 / 2, learning_rate = 1 / 10000,
          momentum = 9 / 10, adam = True, decay_steps = 1536 / 10, use_4 = False,
          eval_frequency = int (num_epochs cfg * n div (bs * 200))\<rparr>"
  by (simp add: build_params_def eval_frequency_of_div n_evaluations_def use_stat_layer_def
      n_classes_def)

lemma nsides_of_Inl:
  "nsides_of n order = Inl e \<Longrightarrow> e = ValueError ''No parameters for this value of order.'' \<and> order \<notin> {1, 2, 4}"
  by (simp add: nsides_of_def split: if_splits)

lemma nsides_of_order_params:
  "nsides_of n order = Inr ns \<Longrightarrow> order_params order \<noteq> Inl e"
  by (simp add: nsides_of_def order_params_def split: if_splits)

lemma order_params_build_params:
  assumes "order_params order = Inr cfg"
  shows "build_params name ns idx cfg k \<noteq> Inl e"
proof -
  obtain x where "cfg = spec_table x" using order_params_Inr [OF assms] by blast
  then have "batch_size cfg \<noteq> 0" using spec_table_batch_size_pos by simp
  then show ?thesis by (simp add: build_params_eq [OF _ refl])
qed

section \<open>Properties\<close>

text \<open>
  C13. Refinement of the schedule: for each supported order the \<open>if/elif\<close>
  chain of lines 29--40 yields the specification's schedule, \<open>halvings x\<close>
  successive halvings of the base resolution followed by one level floored at
  \<open>floor_res x\<close>.
\<close>

theorem nsides_of_refines: "nsides_of nside (order_value x) = Inr (spec_schedule x nside)"
  by (simp add: nsides_of_spec)

text \<open>
  C14. Any order outside {1, 2, 4} makes both derivations raise \<open>ValueError\<close>,
  with the messages of lines 42 and 88.
\<close>

theorem unsupported_order_error:
  assumes "order \<notin> {1, 2, 4}"
  shows "nsides_of nside order = Inl (ValueError ''No parameters for this value of order.'')
    \<and> order_params order = Inl (ValueError ''No parameter for this value of order.'')"
proof -
  from assms have "order_of_int order = None" by (simp add: order_of_int_None)
  then show ?thesis by (simp add: nsides_of_spec order_params_spec)
qed

theorem unsupported_order_error_witness:
  "(3::int) \<notin> {1, 2, 4}
   \<and> nsides_of 1024 3 = Inl (ValueError ''No parameters for this value of order.'')
   \<and> order_params 3 = Inl (ValueError ''No parameter for this value of order.'')"
  using unsupported_order_error [of 3 1024] by simp

text \<open>
  C21. Architecture consistency: whenever both derivations succeed for an
  order, the lists of feature maps, polynomial orders and batch-norm flags have
  one entry per level of the sampling schedule.
\<close>

theorem config_layer_lengths:
  assumes "nsides_of nside order = Inr ns" and "order_params order = Inr cfg"
  shows "length (F cfg) = length ns \<and> length (K cfg) = length ns
    \<and> length (batch_norm cfg) = length ns"
proof -
  obtain x where x: "order_of_int order = Some x" "ns = spec_schedule x nside"
    using nsides_of_Inr [OF assms(1)] by blast
  with order_params_Inr [OF assms(2)] have "cfg = spec_table x" by auto
  with x show ?thesis by (simp add: spec_table_lengths spec_schedule_length)
qed

theorem config_layer_lengths_witness:
  "nsides_of 1024 2 = Inr [1024, 512, 256, 128, 64] \<and> order_params 2 = Inr (spec_table Order2)
   \<and> length (F (spec_table Order2)) = 5 \<and> length (K (spec_table Order2)) = 5
   \<and> length (batch_norm (spec_table Order2)) = 5"
proof -
  have ns: "nsides_of 1024 2 = Inr [1024, 512, 256, 128, 64]" by (simp add: nsides_of_def)
  have cfg: "order_params 2 = Inr (spec_table Order2)" by (simp add: order_params_def)
  show ?thesis using config_layer_lengths [OF ns cfg] ns cfg by simp
qed

text \<open>
  C15. For every supported order, building the parameter record never raises
  (neither division of line 103 is by zero), and \<open>eval_frequency\<close> is the
  integer quotient \<open>num_epochs * N // (batch_size * 200)\<close>: the truncated
  float expression of line 103 computes roughly 200 evaluations over the run.
\<close>

theorem build_params_total:
  assumes "order_params order = Inr cfg"
  shows "\<exists>p. build_params name ns idx cfg n = Inr p
    \<and> eval_frequency p = int (num_epochs cfg * n div (batch_size cfg * 200))
    \<and> dir_name p = name \<and> nsides p = ns \<and> indexes p = idx \<and> M p = [100, 2]"
proof -
  obtain x where "cfg = spec_table x" using order_params_Inr [OF assms] by blast
  then have "batch_size cfg \<noteq> 0" using spec_table_batch_size_pos by simp
  then show ?thesis by (simp add: build_params_eq)
qed

theorem build_params_total_witness:
  "order_params 4 = Inr (spec_table Order4)
   \<and> eval_frequency (projr (build_params ''e'' [1024] () (spec_table Order4) 1000)) = 20"
proof -
  have cfg: "order_params 4 = Inr (spec_table Order4)" by (simp add: order_params_def)
  obtain p where "build_params ''e'' [1024] () (spec_table Order4) 1000 = Inr p"
    and "eval_frequency p = int (num_epochs (spec_table Order4) * 1000
            div (batch_size (spec_table Order4) * 200))"
    using build_params_total [OF cfg, of "''e''" "[1024]" "()" 1000] by blast
  with cfg show ?thesis by simp
qed

text \<open>
  C16. The evaluation cadence is zero exactly when the training set is small:
  below 50 samples for order 4, 12 for order 2 and 3 for order 1. The script
  hands such a zero cadence to the model unchecked.
\<close>

theorem eval_frequency_zero_iff:
  assumes "order_params order = Inr cfg" and "build_params name ns idx cfg n = Inr p"
  shows "eval_frequency p = 0 \<longleftrightarrow> n < (if order = 4 then 50 else if order = 2 then 12 else 3)"
proof -
  obtain x where x: "order_of_int order = Some x" "cfg = spec_table x"
    using order_params_Inr [OF assms(1)] by blast
  then have "batch_size cfg \<noteq> 0" using spec_table_batch_size_pos by simp
  with assms(2) have "eval_frequency p = int (num_epochs cfg * n div (batch_size cfg * 200))"
    by (auto simp: build_params_eq)
  with x show ?thesis by (cases x) (auto dest: order_of_int_Some)
qed

theorem eval_frequency_zero_iff_witness:
  "order_params 4 = Inr (spec_table Order4)
   \<and> build_params ''e'' [1024] () (spec_table Order4) 49
       = Inr (projr (build_params ''e'' [1024] () (spec_table Order4) 49))
   \<and> eval_frequency (projr (build_params ''e'' [1024] () (spec_table Order4) 49)) = 0"
proof -
  have cfg: "order_params 4 = Inr (spec_table Order4)" by (simp add: order_params_def)
  have bp: "build_params ''e'' [1024] () (spec_table Order4) 49
       = Inr (projr (build_params ''e'' [1024] () (spec_table Order4) 49))"
    by (simp add: build_params_eq [of 20])
  show ?thesis using eval_frequency_zero_iff [OF cfg bp] cfg bp by simp
qed

text \<open>
  C24. With the script's base resolution \<open>Nside = 1024\<close> the floor of the
  last level is never active: every schedule is exactly the successive halvings
  of 1024, strictly decreasing.
\<close>

theorem nsides_Nside_halvings:
  assumes "nsides_of Nside order = Inr ns"
  shows "ns = map (\<lambda>i. Nside div 2 ^ i) [0..<length ns] \<and> sorted_wrt (>) ns"
proof -
  obtain x where x: "ns = spec_schedule x Nside" using nsides_of_Inr [OF assms] by blast
  then have "length ns = Suc (halvings x)" by (simp only: spec_schedule_length)
  moreover from x have "ns = map (\<lambda>i. Nside div 2 ^ i) [0..<Suc (halvings x)]"
    by (simp only: spec_schedule_Nside)
  ultimately show ?thesis using x spec_schedule_Nside_strict by metis
qed

theorem nsides_Nside_halvings_witness:
  "nsides_of Nside 1 = Inr [1024, 512, 256, 128, 64, 32]
   \<and> sorted_wrt (>) [1024, 512, 256, 128, 64, 32::int]"
proof -
  have ns: "nsides_of Nside 1 = Inr [1024, 512, 256, 128, 64, 32]"
    by (simp add: nsides_of_def Nside_def)
  show ?thesis using nsides_Nside_halvings [OF ns] ns by simp
qed

text \<open>
  C25. The specification's testable property of the schedule (section 8): for
  a non-negative base resolution and a supported order, the schedule has
  \<open>halvings x + 1\<close> levels (4, 5 and 6 for orders 4, 2 and 1), is
  non-increasing, and ends with \<open>min (N div 2 ^ k) floor\<close>.
\<close>

theorem nsides_schedule_shape:
  assumes "0 \<le> nside" and "nsides_of nside (order_value x) = Inr ns"
  shows "length ns = Suc (halvings x) \<and> sorted_wrt (\<ge>) ns
    \<and> last ns = min (nside div 2 ^ halvings x) (floor_res x)"
proof -
  from assms(2) have "ns = spec_schedule x nside" by (simp add: nsides_of_spec)
  with assms(1) show ?thesis
    by (simp add: spec_schedule_length spec_schedule_antitone spec_schedule_last)
qed

theorem nsides_schedule_shape_witness:
  "(0::int) \<le> 2048 \<and> nsides_of 2048 (order_value Order4) = Inr [2048, 1024, 512, 128]
   \<and> last [2048, 1024, 512, 128::int] = min (2048 div 2 ^ halvings Order4) (floor_res Order4)"
proof -
  have ns: "nsides_of 2048 (order_value Order4) = Inr [2048, 1024, 512, 128]"
    by (simp add: nsides_of_def)
  show ?thesis using nsides_schedule_shape [OF _ ns] ns by simp
qed

end
