(* ===== verification/Naming.thy ===== *)
theory Naming
  imports Hyperparams "HOL-Library.Sublist" "HOL-Library.Countable"
begin

text \<open>
  Names the script builds: the experiment name \<open>EXP_NAME\<close> (lines 17--18),
  the summary and checkpoint directories derived from it (lines 108--109) and
  the result archive path (lines 131 and 138--145). Python's \<open>str\<close> of an
  integer and \<open>int()\<close> of a string (used on the command line, lines 125--126)
  are modelled on ASCII text; the formatting of a float, Python's \<open>repr\<close>, is a
  parameter \<open>fmt\<close> of the definitions that print one.
\<close>

section \<open>Python's str of an int and int of a str\<close>

definition digit_char :: "nat \<Rightarrow> char" where
  "digit_char d = ''0123456789'' ! d"

fun nat_str :: "nat \<Rightarrow> string" where
  "nat_str n = (if n < 10 then [digit_char n] else nat_str (n div 10) @ [digit_char (n mod 10)])"

declare nat_str.simps [simp del]

definition py_str_int :: "int \<Rightarrow> string" where
  "py_str_int i = (if i < 0 then CHR ''-'' # nat_str (nat (- i)) else nat_str (nat i))"

definition py_isdigit :: "char \<Rightarrow> bool" where
  "py_isdigit c \<longleftrightarrow> 48 \<le> (of_char c :: nat) \<and> (of_char c :: nat) \<le> 57"

definition digit_value :: "char \<Rightarrow> nat" where
  "digit_value c = of_char c - 48"

text \<open>
  The ASCII characters \<open>int()\<close> skips around a numeral: CPython's
  \<open>Py_ISSPACE\<close>, i.e. space, tab, newline, vertical tab, form feed and
  carriage return. (The ASCII separators 28--31, for which
  \<open>str.isspace\<close> holds, are not skipped by \<open>int()\<close> and make it raise.)
\<close>

definition py_isspace :: "char \<Rightarrow> bool" where
  "py_isspace c \<longleftrightarrow> of_char c \<in> {9, 10, 11, 12, 13, 32::nat}"

definition py_strip :: "string \<Rightarrow> string" where
  "py_strip s = rev (dropWhile py_isspace (rev (dropWhile py_isspace s)))"

text \<open>
  A decimal literal: digits, single underscores allowed between two digits.
\<close>

fun underscores_ok :: "string \<Rightarrow> bool" where
  "underscores_ok [] = True"
| "underscores_ok [c] = py_isdigit c"
| "underscores_ok (c # d # cs) =
     ((py_isdigit c \<or> (c = CHR ''_'' \<and> py_isdigit d)) \<and> underscores_ok (d # cs))"

definition decimal_ok :: "string \<Rightarrow> bool" where
  "decimal_ok s \<longleftrightarrow> s \<noteq> [] \<and> py_isdigit (hd s) \<and> underscores_ok s"

definition decimal_value :: "string \<Rightarrow> nat" where
  "decimal_value s = foldl (\<lambda>acc c. 10 * acc + digit_value c) 0 (filter py_isdigit s)"

definition int_error :: exc where
  "int_error = ValueError ''invalid literal for int() with base 10''"

text \<open>\<open>int(s)\<close> for a string \<open>s\<close> of ASCII characters.\<close>

definition py_int_of_str :: "string \<Rightarrow> exc + int" where
  "py_int_of_str s =
    (let t = py_strip s in
     case t of
       [] \<Rightarrow> Inl int_error
     | c # r \<Rightarrow>
         (let (sgn, ds) = (if c = CHR ''-'' then (-1, r) else if c = CHR ''+'' then (1, r) else (1, t))
          in if decimal_ok ds then Inr (sgn * int (decimal_value ds)) else Inl int_error))"

section \<open>Paths\<close>

text \<open>
  \<open>os.path.join(a, b)\<close> of the POSIX path module for two components, and the
  file name \<open>np.savez\<close> writes to: it appends \<open>.npz\<close> unless the name ends with
  it.
\<close>

definition path_join :: "string \<Rightarrow> string \<Rightarrow> string" where
  "path_join a b =
    (if b \<noteq> [] \<and> hd b = CHR ''/'' then b
     else if a = [] \<or> last a = CHR ''/'' then a @ b
     else a @ ''/'' @ b)"

definition savez_file :: "string \<Rightarrow> string" where
  "savez_file p = (if suffix ''.npz'' p then p else p @ ''.npz'')"

section \<open>The script's names\<close>

text \<open>Lines 17--18, with \<open>Nside = 1024\<close>.\<close>

definition exp_name :: "(pyfloat \<Rightarrow> string) \<Rightarrow> pyfloat \<Rightarrow> int \<Rightarrow> int \<Rightarrow> string" where
  "exp_name fmt sigma_noise order sigma =
     ''40sim_'' @ py_str_int Nside @ ''sides_'' @ fmt sigma_noise @ ''noise_''
     @ py_str_int order @ ''order_'' @ py_str_int sigma @ ''sigma''"

text \<open>Lines 108--109.\<close>

definition summary_dir :: "string \<Rightarrow> string" where
  "summary_dir name = ''summaries/'' @ name @ ''/''"

definition checkpoint_dir :: "string \<Rightarrow> string" where
  "checkpoint_dir name = ''checkpoints/'' @ name @ ''/''"

text \<open>Line 131 and line 138.\<close>

definition results_path :: string where
  "results_path = ''results/scnn/''"

definition result_filepath :: "int \<Rightarrow> string" where
  "result_filepath sigma = path_join results_path (''scnn_results_list_sigma'' @ py_str_int sigma)"

section \<open>Lemmas on the string conversions\<close>

lemma digit_cases: "(d::nat) < 10 \<Longrightarrow> d = 0 \<or> d = 1 \<or> d = 2 \<or> d = 3 \<or> d = 4 \<or> d = 5 \<or> d = 6 \<or> d = 7 \<or> d = 8 \<or> d = 9"
  by arith

lemma digit_char_props:
  "d < 10 \<Longrightarrow> py_isdigit (digit_char d) \<and> digit_value (digit_char d) = d"
  by (drule digit_cases) (auto simp: digit_char_def py_isdigit_def digit_value_def)

lemma nat_str_digits: "\<forall>c \<in> set (nat_str n). py_isdigit c"
proof (induction n rule: nat_str.induct)
  case (1 n)
  then show ?case by (subst nat_str.simps) (auto simp: digit_char_props)
qed

lemma nat_str_ne: "nat_str n \<noteq> []"
  by (subst nat_str.simps) simp

lemma decimal_value_snoc:
  "py_isdigit c \<Longrightarrow> decimal_value (s @ [c]) = 10 * decimal_value s + digit_value c"
  by (simp add: decimal_value_def)

lemma decimal_value_nat_str: "decimal_value (nat_str n) = n"
proof (induction n rule: nat_str.induct)
  case (1 n)
  show ?case
  proof (cases "n < 10")
    case True
    then show ?thesis
      using decimal_value_snoc [of "digit_char n" "[]"]
      by (subst nat_str.simps) (simp add: digit_char_props decimal_value_def)
  next
    case False
    with "1.IH" have "decimal_value (nat_str (n div 10)) = n div 10" by simp
    with False show ?thesis
      by (subst nat_str.simps) (simp add: decimal_value_snoc digit_char_props)
  qed
qed

lemma underscores_ok_digits: "\<forall>c \<in> set s. py_isdigit c \<Longrightarrow> underscores_ok s"
  by (induction s rule: underscores_ok.induct) auto

lemma decimal_ok_nat_str: "decimal_ok (nat_str n)"
proof -
  obtain c r where cr: "nat_str n = c # r" using nat_str_ne by (cases "nat_str n") auto
  have "underscores_ok (nat_str n)" by (rule underscores_ok_digits [OF nat_str_digits])
  with cr nat_str_digits [of n] show ?thesis by (simp add: decimal_ok_def)
qed

lemma digit_not_space: "py_isdigit c \<Longrightarrow> \<not> py_isspace c"
  by (auto simp: py_isdigit_def py_isspace_def)

lemma dropWhile_none: "\<forall>c \<in> set s. \<not> P c \<Longrightarrow> dropWhile P s = s"
  by (induction s) auto

lemma py_strip_id: "\<forall>c \<in> set s. \<not> py_isspace c \<Longrightarrow> py_strip s = s"
  by (simp add: py_strip_def dropWhile_none)

lemma nat_str_no_space: "\<forall>c \<in> set (nat_str n). \<not> py_isspace c"
  using nat_str_digits digit_not_space by blast

lemma sign_not_space: "\<not> py_isspace CHR ''-''"
  by (simp add: py_isspace_def)

lemma sign_not_digit: "\<not> py_isdigit CHR ''-''" "\<not> py_isdigit CHR ''+''"
  by (simp_all add: py_isdigit_def)

lemma py_int_of_str_nat_str: "py_int_of_str (nat_str n) = Inr (int n)"
proof -
  obtain c r where cr: "nat_str n = c # r" using nat_str_ne by (cases "nat_str n") auto
  have "py_isdigit c" using nat_str_digits [of n] cr by simp
  then have "c \<noteq> CHR ''-'' \<and> c \<noteq> CHR ''+''" using sign_not_digit by auto
  moreover have "py_strip (nat_str n) = nat_str n"
    by (rule py_strip_id [OF nat_str_no_space])
  ultimately show ?thesis using cr decimal_ok_nat_str [of n] decimal_value_nat_str [of n]
    by (simp add: py_int_of_str_def)
qed

lemma py_int_of_str_neg: "py_int_of_str (CHR ''-'' # nat_str n) = Inr (- int n)"
proof -
  have "py_strip (CHR ''-'' # nat_str n) = CHR ''-'' # nat_str n"
    using nat_str_no_space sign_not_space by (intro py_strip_id) simp
  then show ?thesis using decimal_ok_nat_str [of n] decimal_value_nat_str [of n]
    by (simp add: py_int_of_str_def)
qed


lemma py_int_of_str_inverse: "py_int_of_str (py_str_int i) = Inr i"
  by (simp add: py_str_int_def py_int_of_str_nat_str py_int_of_str_neg)

lemma py_str_int_inj: "py_str_int a = py_str_int b \<longleftrightarrow> a = b"
  by (metis py_int_of_str_inverse sum.inject(2))

lemma py_str_int_chars: "c \<in> set (py_str_int i) \<Longrightarrow> py_isdigit c \<or> c = CHR ''-''"
  using nat_str_digits by (auto simp: py_str_int_def split: if_splits)

lemma py_str_int_no_sep: "CHR ''_'' \<notin> set (py_str_int i)"
  using py_str_int_chars by (fastforce simp: py_isdigit_def)

lemma nat_str_last: "py_isdigit (last (nat_str n))"
  using nat_str_digits nat_str_ne last_in_set by blast

lemma py_str_int_last: "py_isdigit (last (py_str_int i))"
  by (simp add: py_str_int_def nat_str_ne nat_str_last)

lemma sep_split:
  "c \<notin> set a \<Longrightarrow> c \<notin> set a' \<Longrightarrow> a @ c # b = a' @ c # b' \<Longrightarrow> a = a' \<and> b = b'"
proof (induction a arbitrary: a')
  case Nil
  then show ?case by (cases a') auto
next
  case (Cons x a)
  then show ?case by (cases a') auto
qed

lemma exp_name_split:
  "exp_name fmt n r s =
     ''40sim_'' @ py_str_int Nside @ ''sides_'' @ (fmt n @ ''noise'') @ CHR ''_'' #
       ((py_str_int r @ ''order'') @ CHR ''_'' # (py_str_int s @ ''sigma''))"
  by (simp add: exp_name_def)

text \<open>
  C20. Distinct experiments get distinct names: if the float formatting is
  injective and prints no underscore (true of Python's \<open>repr\<close> of a float),
  equal experiment names (lines 17--18) have equal \<open>sigma_noise\<close>, \<open>order\<close>
  and \<open>sigma\<close>; so the cleanup of lines 108--109 for one experiment never
  removes the summaries or checkpoints of another.
\<close>

theorem exp_name_injective:
  assumes "inj fmt" and "\<forall>x. CHR ''_'' \<notin> set (fmt x)"
    and "exp_name fmt n r s = exp_name fmt n' r' s'"
  shows "n = n' \<and> r = r' \<and> s = s'"
proof -
  have u1: "CHR ''_'' \<notin> set (fmt x @ ''noise'')" for x using assms(2) by simp
  have u2: "CHR ''_'' \<notin> set (py_str_int x @ ''order'')" for x using py_str_int_no_sep by simp
  from assms(3) have "(fmt n @ ''noise'') @ CHR ''_'' # ((py_str_int r @ ''order'') @ CHR ''_'' # (py_str_int s @ ''sigma''))
    = (fmt n' @ ''noise'') @ CHR ''_'' # ((py_str_int r' @ ''order'') @ CHR ''_'' # (py_str_int s' @ ''sigma''))"
    by (simp only: exp_name_split same_append_eq)
  from sep_split [OF u1 u1 this] have 1: "fmt n @ ''noise'' = fmt n' @ ''noise''"
    and 2: "(py_str_int r @ ''order'') @ CHR ''_'' # (py_str_int s @ ''sigma'')
          = (py_str_int r' @ ''order'') @ CHR ''_'' # (py_str_int s' @ ''sigma'')"
    by blast+
  from sep_split [OF u2 u2 2] have "py_str_int r @ ''order'' = py_str_int r' @ ''order''"
    and "py_str_int s @ ''sigma'' = py_str_int s' @ ''sigma''"
    by blast+
  with 1 assms(1) show ?thesis by (simp add: py_str_int_inj inj_eq)
qed

lemma nat_str_inj: "nat_str a = nat_str b \<Longrightarrow> a = b"
  by (metis decimal_value_nat_str)

theorem exp_name_injective_witness:
  "inj (nat_str \<circ> (to_nat :: rat \<Rightarrow> nat)) \<and> (\<forall>x. CHR ''_'' \<notin> set ((nat_str \<circ> (to_nat :: rat \<Rightarrow> nat)) x))
   \<and> exp_name (nat_str \<circ> to_nat) (1/10) 4 3 = exp_name (nat_str \<circ> to_nat) (1/10) 4 3
   \<and> (1/10::rat) = 1/10 \<and> (4::int) = 4 \<and> (3::int) = 3"
proof -
  have i: "inj (nat_str \<circ> (to_nat :: rat \<Rightarrow> nat))"
    by (rule inj_compose) (auto intro: injI nat_str_inj)
  have u: "\<forall>x. CHR ''_'' \<notin> set ((nat_str \<circ> (to_nat :: rat \<Rightarrow> nat)) x)"
    using nat_str_digits by (fastforce simp: py_isdigit_def)
  have e: "exp_name (nat_str \<circ> to_nat) (1/10) 4 3 = exp_name (nat_str \<circ> to_nat) (1/10) 4 3" ..
  have "(1/10::rat) = 1/10 \<and> (4::int) = 4 \<and> (3::int) = 3"
    by (rule exp_name_injective [OF i u e])
  with i u e show ?thesis by blast
qed

lemma result_filepath_eq: "result_filepath s = ''results/scnn/scnn_results_list_sigma'' @ py_str_int s"
  by (simp add: result_filepath_def path_join_def results_path_def)

lemma suffix_npz_last: "suffix ''.npz'' p \<Longrightarrow> last p = CHR ''z''"
  by (auto simp: suffix_def)

lemma savez_result_filepath: "savez_file (result_filepath s) = result_filepath s @ ''.npz''"
proof -
  have "last (result_filepath s) \<noteq> CHR ''z''"
    using py_str_int_last [of s] nat_str_ne by (auto simp: result_filepath_eq py_isdigit_def)
  then have "\<not> suffix ''.npz'' (result_filepath s)" using suffix_npz_last by blast
  then show ?thesis by (simp add: savez_file_def)
qed

lemma result_filepath_inj: "result_filepath s = result_filepath s' \<longleftrightarrow> s = s'"
  by (simp add: result_filepath_eq py_str_int_inj)

text \<open>
  C19. The file whose existence line 140 tests and loads is the file
  \<open>np.savez\<close> writes at line 145 (the name has no \<open>.npz\<close> suffix, so numpy
  appends it), and distinct values of \<open>sigma\<close> give distinct archives.
\<close>

theorem result_file_consistent:
  "savez_file (result_filepath s) = result_filepath s @ ''.npz''
   \<and> (result_filepath s = result_filepath s' \<longleftrightarrow> s = s')"
  by (simp add: savez_result_filepath result_filepath_inj)

lemma py_strip_pad:
  assumes "\<forall>c \<in> set w1. py_isspace c" "\<forall>c \<in> set w2. py_isspace c"
    and "s \<noteq> []" "\<not> py_isspace (hd s)" "\<not> py_isspace (last s)"
  shows "py_strip (w1 @ s @ w2) = s"
proof -
  have "dropWhile py_isspace (w1 @ s @ w2) = s @ w2"
    using assms(1,3,4) by (simp add: dropWhile_append2 dropWhile_eq_self_iff)
  moreover have "dropWhile py_isspace (rev w2 @ rev s) = dropWhile py_isspace (rev s)"
    by (rule dropWhile_append2) (use assms(2) in simp)
  moreover have "dropWhile py_isspace (rev s) = rev s"
    using assms(3,5) by (simp add: dropWhile_eq_self_iff hd_rev)
  ultimately show ?thesis by (simp add: py_strip_def)
qed

lemma nat_str_ends: "\<not> py_isspace (hd (nat_str n)) \<and> \<not> py_isspace (last (nat_str n))"
  using nat_str_no_space nat_str_ne hd_in_set last_in_set by blast

lemma py_str_int_ends:
  "py_str_int i \<noteq> [] \<and> \<not> py_isspace (hd (py_str_int i)) \<and> \<not> py_isspace (last (py_str_int i))"
  by (simp add: py_str_int_def nat_str_ne nat_str_ends sign_not_space)

text \<open>
  C26. Python's \<open>int()\<close> (lines 125--126) reads back what \<open>str()\<close> of an
  integer prints, also when it is surrounded by the whitespace \<open>int()\<close> skips
  (space, tab, newline, vertical tab, form feed, carriage return): the
  command line can carry any integer \<open>sigma\<close> and \<open>order\<close>.
\<close>

theorem int_of_str_roundtrip:
  assumes "\<forall>c \<in> set w1. py_isspace c" and "\<forall>c \<in> set w2. py_isspace c"
  shows "py_int_of_str (w1 @ py_str_int i @ w2) = Inr i"
proof -
  have "py_strip (w1 @ py_str_int i @ w2) = py_str_int i"
    using py_strip_pad [OF assms] py_str_int_ends by blast
  moreover have "py_strip (py_str_int i) = py_str_int i"
    using py_strip_pad [of "[]" "[]"] py_str_int_ends by simp
  ultimately have "py_int_of_str (w1 @ py_str_int i @ w2) = py_int_of_str (py_str_int i)"
    by (simp only: py_int_of_str_def)
  then show ?thesis by (simp only: py_int_of_str_inverse)
qed

theorem int_of_str_roundtrip_witness:
  "py_int_of_str ('' '' @ py_str_int (-42) @ ''\<newline>'') = Inr (-42)"
proof -
  have a: "\<forall>c \<in> set '' ''. py_isspace c" and b: "\<forall>c \<in> set ''\<newline>''. py_isspace c"
    by (simp_all add: py_isspace_def)
  show ?thesis using int_of_str_roundtrip [OF a b, of "-42"] a b by blast
qed

end
