(* ===== verification/World.thy ===== *)
theory World
  imports Naming
begin

text \<open>
  The part of the machine the script touches, as one state record: the files
  of the result directory (each an \<open>.npz\<close> archive, or a file \<open>np.load\<close>
  cannot read), the set of existing directories, the lines printed on
  standard output, and the log of calls into the external collaborators
  (\<open>scnn\<close>, \<open>experiment_helper\<close>, \<open>grid\<close>). The operations are the
  library calls of the script: \<open>print\<close>, \<open>shutil.rmtree(..., ignore_errors=True)\<close>,
  \<open>os.makedirs(..., exist_ok=True)\<close>, \<open>os.path.isfile\<close>, \<open>np.load\<close> and
  \<open>np.savez\<close>, each written with the behaviour the script relies on.
\<close>

section \<open>State\<close>

text \<open>
  An archive holds the field \<open>data\<close>: \<open>np.savez\<close> turns the list of
  \<open>[order, sigma_noise, error]\<close> rows into a two-dimensional float array, and
  \<open>tolist()\<close> gives the rows back as lists of floats.
\<close>

datatype npz = NpzData "pyfloat list list" | NpzCorrupt

datatype split = Validation | Test

text \<open>One entry per call into a collaborator, with the arguments that identify it.\<close>

datatype call =
    GetTrainingData int int
  | GetTestingData int int pyfloat
  | Preprocess pyfloat
  | Nside2Indexes "int list" int
  | BuildModel string
  | Fit string
  | ModelError split
  | PGrid

record world =
  files :: "string \<rightharpoonup> npz"
  dirs :: "string set"
  stdout :: "string list"
  calls :: "call list"

text \<open>A machine on which the script has not run yet.\<close>

definition empty_world :: world where
  "empty_world = \<lparr>files = Map.empty, dirs = {}, stdout = [], calls = []\<rparr>"

section \<open>Library calls\<close>

definition py_print :: "string \<Rightarrow> (world, unit) act" where
  "py_print line = act_update (\<lambda>w. w\<lparr>stdout := stdout w @ [line]\<rparr>)"

text \<open>A call into a collaborator: logged, then its result or its exception.\<close>

definition ext_call :: "call \<Rightarrow> exc + 'a \<Rightarrow> (world, 'a) act" where
  "ext_call c r = act_bind (act_update (\<lambda>w. w\<lparr>calls := calls w @ [c]\<rparr>)) (\<lambda>_. act_lift r)"

text \<open>
  \<open>shutil.rmtree(p, ignore_errors=True)\<close>: every directory and file under
  \<open>p\<close> is removed; a missing \<open>p\<close> is no error.
\<close>

definition rmtree_effect :: "string \<Rightarrow> world \<Rightarrow> world" where
  "rmtree_effect p w = w\<lparr>dirs := {d \<in> dirs w. \<not> prefix p d},
                          files := (\<lambda>f. if prefix p f then None else files w f)\<rparr>"

definition rmtree :: "string \<Rightarrow> (world, unit) act" where
  "rmtree p = act_update (rmtree_effect p)"

text \<open>\<open>os.makedirs(p, exist_ok=True)\<close>: \<open>p\<close> and all its ancestors exist afterwards.\<close>

definition dir_prefixes :: "string \<Rightarrow> string list" where
  "dir_prefixes p = map (\<lambda>i. take (Suc i) p) (filter (\<lambda>i. p ! i = CHR ''/'') [0..<length p])"

definition makedirs :: "string \<Rightarrow> (world, unit) act" where
  "makedirs p = act_update (\<lambda>w. w\<lparr>dirs := dirs w \<union> set (dir_prefixes p)\<rparr>)"

definition isfile :: "string \<Rightarrow> (world, bool) act" where
  "isfile p = act_get (\<lambda>w. files w p \<noteq> None)"

text \<open>\<open>np.load(p)['data'].tolist()\<close>.\<close>

definition np_load_data :: "string \<Rightarrow> (world, pyfloat list list) act" where
  "np_load_data p =
    act_bind (act_get (\<lambda>w. files w p)) (\<lambda>f.
      case f of
        None \<Rightarrow> act_raise (ExternalError ''FileNotFoundError'')
      | Some NpzCorrupt \<Rightarrow> act_raise (ExternalError ''np.load: not an npz archive'')
      | Some (NpzData rows) \<Rightarrow> act_return rows)"

text \<open>\<open>np.savez(p, data=rows)\<close>: the whole file is rewritten.\<close>

definition np_savez :: "string \<Rightarrow> pyfloat list list \<Rightarrow> (world, unit) act" where
  "np_savez p rows = act_update (\<lambda>w. w\<lparr>files := (files w)(savez_file p \<mapsto> NpzData rows)\<rparr>)"

definition logs_within :: "call list \<Rightarrow> (world, 'a) act \<Rightarrow> bool" where
  "logs_within L m \<longleftrightarrow>
     (\<forall>w r w'. m w = (r, w') \<longrightarrow> (\<exists>cs. calls w' = calls w @ cs \<and> prefix cs L))"

text \<open>\<open>keeps_file f m\<close>: \<open>m\<close> leaves the file \<open>f\<close> as it was.\<close>

definition keeps_file :: "string \<Rightarrow> (world, 'a) act \<Rightarrow> bool" where
  "keeps_file f m \<longleftrightarrow> (\<forall>w. files (snd (m w)) f = files w f)"

section \<open>Evaluation rules\<close>

lemma py_print_apply [act_simps]: "py_print line w = (Inr (), w\<lparr>stdout := stdout w @ [line]\<rparr>)"
  by (simp add: py_print_def act_simps)

lemma ext_call_apply [act_simps]: "ext_call c r w = (r, w\<lparr>calls := calls w @ [c]\<rparr>)"
  by (simp add: ext_call_def act_simps)

lemma isfile_apply [act_simps]: "isfile p w = (Inr (files w p \<noteq> None), w)"
  by (simp add: isfile_def act_simps)

lemma isfile_bind [act_simps]: "act_bind (isfile p) f w = f (files w p \<noteq> None) w"
  by (simp add: isfile_def act_simps)

lemma py_print_bind [act_simps]:
  "act_bind (py_print line) f w = f () (w\<lparr>stdout := stdout w @ [line]\<rparr>)"
  by (simp add: py_print_def act_simps)

lemma ext_call_bind_Inr [act_simps]:
  "act_bind (ext_call c (Inr x)) f w = f x (w\<lparr>calls := calls w @ [c]\<rparr>)"
  by (simp add: ext_call_def act_bind_def act_update_def act_lift_def)

lemma ext_call_bind_Inl [act_simps]:
  "act_bind (ext_call c (Inl e)) f w = (Inl e, w\<lparr>calls := calls w @ [c]\<rparr>)"
  by (simp add: ext_call_def act_bind_def act_update_def act_lift_def)

lemma rmtree_bind [act_simps]: "act_bind (rmtree p) f w = f () (rmtree_effect p w)"
  by (simp add: rmtree_def act_simps)

lemma rmtree_effect_fields [simp]:
  "stdout (rmtree_effect p w) = stdout w" "calls (rmtree_effect p w) = calls w"
  "dirs (rmtree_effect p w) = {d \<in> dirs w. \<not> prefix p d}"
  "files (rmtree_effect p w) f = (if prefix p f then None else files w f)"
  by (simp_all add: rmtree_effect_def)

lemma rmtree_effect_stdout [simp]:
  "rmtree_effect p (w\<lparr>stdout := o'\<rparr>) = (rmtree_effect p w)\<lparr>stdout := o'\<rparr>"
  by (simp add: rmtree_effect_def fun_eq_iff)

lemma rmtree_effect_calls [simp]:
  "rmtree_effect p (w\<lparr>calls := cs\<rparr>) = (rmtree_effect p w)\<lparr>calls := cs\<rparr>"
  by (simp add: rmtree_effect_def fun_eq_iff)

lemma makedirs_bind [act_simps]:
  "act_bind (makedirs p) f w = f () (w\<lparr>dirs := dirs w \<union> set (dir_prefixes p)\<rparr>)"
  by (simp add: makedirs_def act_simps)

lemma np_savez_apply [act_simps]:
  "np_savez p rows w = (Inr (), w\<lparr>files := (files w)(savez_file p \<mapsto> NpzData rows)\<rparr>)"
  by (simp add: np_savez_def act_simps)

lemma np_savez_bind [act_simps]:
  "act_bind (np_savez p rows) f w = f () (w\<lparr>files := (files w)(savez_file p \<mapsto> NpzData rows)\<rparr>)"
  by (simp add: np_savez_def act_simps)

lemma np_load_data_apply [act_simps]:
  "np_load_data p w =
    (case files w p of
       None \<Rightarrow> (Inl (ExternalError ''FileNotFoundError''), w)
     | Some NpzCorrupt \<Rightarrow> (Inl (ExternalError ''np.load: not an npz archive''), w)
     | Some (NpzData rows) \<Rightarrow> (Inr rows, w))"
  by (simp add: np_load_data_def act_simps split: option.splits npz.splits)

lemma np_load_data_bind [act_simps]:
  "act_bind (np_load_data p) f w =
    (case files w p of
       None \<Rightarrow> (Inl (ExternalError ''FileNotFoundError''), w)
     | Some NpzCorrupt \<Rightarrow> (Inl (ExternalError ''np.load: not an npz archive''), w)
     | Some (NpzData rows) \<Rightarrow> f rows w)"
  by (simp add: act_bind_def np_load_data_apply split: option.splits npz.splits)

section \<open>Which calls an action makes\<close>

text \<open>
  \<open>logs_within L m\<close>: the calls \<open>m\<close> logs are a prefix of \<open>L\<close>, in the
  order of \<open>L\<close>, each at most once, whether \<open>m\<close> returns or raises.
\<close>

lemma logs_within_return: "logs_within L (act_return x)"
  by (simp add: logs_within_def act_simps)

lemma logs_within_ext_call:
  "(\<And>x. logs_within L (f x)) \<Longrightarrow> logs_within (c # L) (act_bind (ext_call c r) f)"
  unfolding logs_within_def
proof (intro allI impI)
  fix w r' w'
  assume f: "\<And>x. \<forall>w r w'. f x w = (r, w') \<longrightarrow> (\<exists>cs. calls w' = calls w @ cs \<and> prefix cs L)"
    and m: "act_bind (ext_call c r) f w = (r', w')"
  show "\<exists>cs. calls w' = calls w @ cs \<and> prefix cs (c # L)"
  proof (cases r)
    case (Inl e)
    with m show ?thesis by (auto simp: act_simps)
  next
    case (Inr x)
    with m have "f x (w\<lparr>calls := calls w @ [c]\<rparr>) = (r', w')" by (simp add: act_simps)
    with f obtain cs where "calls w' = calls w @ [c] @ cs" "prefix cs L" by fastforce
    then show ?thesis by (intro exI [of _ "c # cs"]) simp
  qed
qed

lemma logs_within_update:
  assumes "\<And>w. calls (g w) = calls w" and "\<And>x. logs_within L (f x)"
  shows "logs_within L (act_bind (act_update g) f)"
  using assms by (fastforce simp: logs_within_def act_simps)

lemma logs_within_lift:
  "(\<And>x. r = Inr x \<Longrightarrow> logs_within L (f x)) \<Longrightarrow> logs_within L (act_bind (act_lift r) f)"
  by (cases r) (auto simp: logs_within_def act_simps)

lemma logs_within_print: "(\<And>x. logs_within L (f x)) \<Longrightarrow> logs_within L (act_bind (py_print s) f)"
  unfolding py_print_def by (rule logs_within_update) simp_all

lemma logs_within_rmtree: "(\<And>x. logs_within L (f x)) \<Longrightarrow> logs_within L (act_bind (rmtree p) f)"
  unfolding rmtree_def by (rule logs_within_update) simp_all

lemma logs_within_case_prod:
  "(\<And>a b. logs_within L (f a b)) \<Longrightarrow> logs_within L (case p of (a, b) \<Rightarrow> f a b)"
  by (cases p) simp


lemmas logs_within_rules = logs_within_return logs_within_ext_call logs_within_lift
  logs_within_print logs_within_rmtree logs_within_case_prod

lemma raises_only_ext_call:
  "(\<And>e. r = Inl e \<Longrightarrow> P e) \<Longrightarrow> (\<And>x. r = Inr x \<Longrightarrow> raises_only P (f x))
   \<Longrightarrow> raises_only P (act_bind (ext_call c r) f)"
  by (cases r) (auto simp: raises_only_def act_simps)

lemma raises_only_print: "(\<And>x. raises_only P (f x)) \<Longrightarrow> raises_only P (act_bind (py_print s) f)"
  unfolding py_print_def by (rule raises_only_update)

lemma raises_only_rmtree: "(\<And>x. raises_only P (f x)) \<Longrightarrow> raises_only P (act_bind (rmtree p) f)"
  unfolding rmtree_def by (rule raises_only_update)

lemmas raises_only_rules = raises_only_return raises_only_ext_call raises_only_lift
  raises_only_print raises_only_rmtree raises_only_case_prod

section \<open>Frames\<close>

lemma result_indep_simple:
  "result_indep (ext_call c r)" "result_indep (act_lift r)" "result_indep (py_print l)"
  "result_indep (rmtree p)"
  by (simp_all add: result_indep_def act_simps ext_call_def act_bind_def act_update_def
      act_lift_def py_print_def rmtree_def)

lemmas result_indep_rules = result_indep_return result_indep_bind result_indep_simple
  result_indep_case_prod

lemma keeps_file_return: "keeps_file f (act_return x)"
  by (simp add: keeps_file_def act_simps)

lemma keeps_file_bind:
  assumes "keeps_file f m" and "\<And>x. keeps_file f (g x)"
  shows "keeps_file f (act_bind m g)"
  unfolding keeps_file_def
proof
  fix w
  obtain r w1 where m: "m w = (r, w1)" by fastforce
  have w1: "files w1 f = files w f" using assms(1) m by (metis keeps_file_def snd_conv)
  show "files (snd (act_bind m g w)) f = files w f"
  proof (cases r)
    case (Inl e)
    with m w1 show ?thesis by (simp add: act_bind_def)
  next
    case (Inr x)
    with m have "act_bind m g w = g x w1" by (simp add: act_bind_def)
    with w1 assms(2) show ?thesis by (simp add: keeps_file_def)
  qed
qed

lemma keeps_file_simple:
  "keeps_file f (ext_call c r)" "keeps_file f (act_lift r)" "keeps_file f (py_print l)"
  by (simp_all add: keeps_file_def act_simps ext_call_def act_bind_def act_update_def
      act_lift_def py_print_def)

lemma keeps_file_rmtree: "\<not> prefix p f \<Longrightarrow> keeps_file f (rmtree p)"
  by (simp add: keeps_file_def rmtree_def act_update_def)

lemma keeps_file_case_prod:
  "(\<And>a b. keeps_file f (g a b)) \<Longrightarrow> keeps_file f (case p of (a, b) \<Rightarrow> g a b)"
  by (cases p) simp

lemmas keeps_file_rules = keeps_file_return keeps_file_bind keeps_file_simple keeps_file_rmtree
  keeps_file_case_prod

end
