(* ===== verification/Experiment.thy ===== *)
theory Experiment
  imports Hyperparams World
begin

text \<open>
  \<open>single_experiment(sigma, order, sigma_noise)\<close>, lines 13--119 of
  \<open>src/results_scnn_with_augmentation.py\<close>, as one action on the world. The
  collaborators the function calls (\<open>experiment_helper\<close>, \<open>utils\<close>,
  \<open>models.scnn\<close> and the model's \<open>fit\<close>, Python's \<open>repr\<close> of a float) are
  the fields of a record \<open>collab\<close>: every lemma holds for every collaborator,
  and a collaborator that raises is one whose field returns \<open>Inl\<close>. Each call
  is logged in the world, so the lemmas can speak about which calls happen and
  in which order. The datasets the function wraps (\<open>LabeledDataset\<close>,
  \<open>LabeledDatasetWithNoise\<close>) are records of their constructor arguments.
\<close>

section \<open>Collaborators and datasets\<close>

text \<open>
  \<open>'x\<close> is the type of feature arrays, \<open>'l\<close> of label arrays, \<open>'st\<close> of the
  standardisation statistic, \<open>'i\<close> of the pooling indexes and \<open>'m\<close> of models.
\<close>

record ('x, 'l) labeled_dataset =
  ds_features :: 'x
  ds_labels :: 'l

record ('x, 'l) noisy_dataset = "('x, 'l) labeled_dataset" +
  start_level :: pyfloat
  end_level :: pyfloat
  nit :: nat

record ('x, 'l, 'st, 'i, 'm) collab =
  get_training_data :: "int \<Rightarrow> int \<Rightarrow> exc + ('x \<times> 'l \<times> 'st)"
  get_testing_data :: "int \<Rightarrow> int \<Rightarrow> pyfloat \<Rightarrow> 'st \<Rightarrow> exc + ('x \<times> 'l \<times> 'st)"
  data_preprossing :: "'x \<Rightarrow> 'l \<Rightarrow> 'x \<Rightarrow> pyfloat \<Rightarrow> exc + ('x \<times> 'l \<times> 'x \<times> 'l \<times> 'x)"
  n_samples :: "'x \<Rightarrow> nat"
  n_labels :: "'l \<Rightarrow> nat"
  nside2indexes :: "int list \<Rightarrow> int \<Rightarrow> exc + 'i"
  make_model :: "'i scnn_params \<Rightarrow> exc + 'm"
  fit :: "'m \<Rightarrow> ('x, 'l) noisy_dataset \<Rightarrow> ('x, 'l) labeled_dataset \<Rightarrow> exc + 'm"
  model_error :: "'m \<Rightarrow> 'x \<Rightarrow> 'l \<Rightarrow> exc + pyfloat"
  fmt_float :: "pyfloat \<Rightarrow> string"

section \<open>Printing a list of ints\<close>

fun join_comma :: "string list \<Rightarrow> string" where
  "join_comma [] = []"
| "join_comma [x] = x"
| "join_comma (x # xs) = x @ '', '' @ join_comma xs"

definition py_str_int_list :: "int list \<Rightarrow> string" where
  "py_str_int_list ns = ''['' @ join_comma (map py_str_int ns) @ '']''"

section \<open>The experiment\<close>

text \<open>Lines 13--119, statement by statement.\<close>

definition single_experiment ::
  "('x, 'l, 'st, 'i, 'm) collab \<Rightarrow> int \<Rightarrow> int \<Rightarrow> pyfloat \<Rightarrow> (world, pyfloat) act" where
  "single_experiment c sigma order sigma_noise =
    (let EXP_NAME = exp_name (fmt_float c) sigma_noise order sigma in
     act_bind (ext_call (GetTrainingData sigma order) (get_training_data c sigma order))
      (\<lambda>(x_raw_train, labels_raw_train, x_raw_std).
     act_bind (ext_call (GetTestingData sigma order sigma_noise)
                 (get_testing_data c sigma order sigma_noise x_raw_std))
      (\<lambda>(x_raw_test, labels_test, _).
     act_bind (ext_call (Preprocess sigma_noise)
                 (data_preprossing c x_raw_train labels_raw_train x_raw_test sigma_noise))
      (\<lambda>(features_train, labels_train, features_validation, labels_validation, features_test).
     let training = \<lparr>ds_features = features_train, ds_labels = labels_train,
                     start_level = 0, end_level = sigma_noise,
                     nit = n_labels c labels_train div 10\<rparr>;
         validation = \<lparr>ds_features = features_validation, ds_labels = labels_validation\<rparr>
     in
     act_bind (act_lift (nsides_of Nside order)) (\<lambda>nsides.
     act_bind (py_print (''#sides: '' @ py_str_int_list nsides)) (\<lambda>_.
     act_bind (ext_call (Nside2Indexes nsides order) (nside2indexes c nsides order)) (\<lambda>indexes.
     act_bind (act_lift (order_params order)) (\<lambda>cfg.
     act_bind (act_lift (build_params EXP_NAME nsides indexes cfg (n_samples c features_train)))
      (\<lambda>params.
     act_bind (ext_call (BuildModel EXP_NAME) (make_model c params)) (\<lambda>model.
     act_bind (rmtree (summary_dir EXP_NAME)) (\<lambda>_.
     act_bind (rmtree (checkpoint_dir EXP_NAME)) (\<lambda>_.
     act_bind (ext_call (Fit EXP_NAME) (fit c model training validation)) (\<lambda>model.
     act_bind (ext_call (ModelError Validation)
                 (model_error c model features_validation labels_validation)) (\<lambda>error_validation.
     act_bind (py_print (''The validation error is '' @ fmt_float c (error_validation * 100) @ ''%''))
      (\<lambda>_.
     act_bind (ext_call (ModelError Test) (model_error c model features_test labels_test))
      (\<lambda>error_test.
     act_bind (py_print (''The testing error is '' @ fmt_float c (error_test * 100) @ ''%'')) (\<lambda>_.
     act_return error_test)))))))))))))))))"

section \<open>Views used by the lemmas\<close>

text \<open>The calls of one experiment that runs to its end, in the order of the code.\<close>

definition experiment_calls :: "int \<Rightarrow> int \<Rightarrow> pyfloat \<Rightarrow> string \<Rightarrow> call list" where
  "experiment_calls sigma order sn name =
    [GetTrainingData sigma order, GetTestingData sigma order sn, Preprocess sn,
     Nside2Indexes (case nsides_of Nside order of Inr ns \<Rightarrow> ns | Inl _ \<Rightarrow> []) order,
     BuildModel name, Fit name, ModelError Validation, ModelError Test]"

text \<open>The world after the two cleanups of lines 108--109.\<close>

definition cleaned :: "string \<Rightarrow> world \<Rightarrow> world" where
  "cleaned name w = rmtree_effect (checkpoint_dir name) (rmtree_effect (summary_dir name) w)"

text \<open>
  A test harness: the collaborator \<open>c\<close> with the call made at one call
  site of \<open>single_experiment\<close> replaced by one that raises \<open>e\<close>;
  \<open>site_pos\<close> is the position of that call in \<open>experiment_calls\<close>. (At
  \<open>AtError\<close>, the first \<open>model_error\<close> call, on the validation split, raises.)
\<close>

datatype call_site = AtTrainingData | AtTestingData | AtPreprocess | AtIndexes | AtModel | AtFit | AtError

fun site_pos :: "call_site \<Rightarrow> nat" where
  "site_pos AtTrainingData = 0"
| "site_pos AtTestingData = 1"
| "site_pos AtPreprocess = 2"
| "site_pos AtIndexes = 3"
| "site_pos AtModel = 4"
| "site_pos AtFit = 5"
| "site_pos AtError = 6"

fun fail_at :: "call_site \<Rightarrow> exc \<Rightarrow> ('x, 'l, 'st, 'i, 'm) collab \<Rightarrow> ('x, 'l, 'st, 'i, 'm) collab" where
  "fail_at AtTrainingData e c = c\<lparr>get_training_data := (\<lambda>_ _. Inl e)\<rparr>"
| "fail_at AtTestingData e c = c\<lparr>get_testing_data := (\<lambda>_ _ _ _. Inl e)\<rparr>"
| "fail_at AtPreprocess e c = c\<lparr>data_preprossing := (\<lambda>_ _ _ _. Inl e)\<rparr>"
| "fail_at AtIndexes e c = c\<lparr>nside2indexes := (\<lambda>_ _. Inl e)\<rparr>"
| "fail_at AtModel e c = c\<lparr>make_model := (\<lambda>_. Inl e)\<rparr>"
| "fail_at AtFit e c = c\<lparr>fit := (\<lambda>_ _ _. Inl e)\<rparr>"
| "fail_at AtError e c = c\<lparr>model_error := (\<lambda>_ _ _. Inl e)\<rparr>"

text \<open>Every exception any collaborator raises satisfies \<open>Q\<close>.\<close>

definition collab_raises_only :: "(exc \<Rightarrow> bool) \<Rightarrow> ('x, 'l, 'st, 'i, 'm) collab \<Rightarrow> bool" where
  "collab_raises_only Q c \<longleftrightarrow>
     (\<forall>s o' e. get_training_data c s o' = Inl e \<longrightarrow> Q e)
   \<and> (\<forall>s o' n st e. get_testing_data c s o' n st = Inl e \<longrightarrow> Q e)
   \<and> (\<forall>a b d n e. data_preprossing c a b d n = Inl e \<longrightarrow> Q e)
   \<and> (\<forall>ns o' e. nside2indexes c ns o' = Inl e \<longrightarrow> Q e)
   \<and> (\<forall>p e. make_model c p = Inl e \<longrightarrow> Q e)
   \<and> (\<forall>m t v e. fit c m t v = Inl e \<longrightarrow> Q e)
   \<and> (\<forall>m x l e. model_error c m x l = Inl e \<longrightarrow> Q e)"

text \<open>
  A collaborator that never fails, used to run the theorems on concrete
  inputs: every array is \<open>()\<close>, the training set has 1000 samples, and the
  trained model misclassifies 5\%.
\<close>

definition demo_collab :: "(unit, unit, unit, unit, unit) collab" where
  "demo_collab =
    \<lparr>get_training_data = (\<lambda>_ _. Inr ((), (), ())),
     get_testing_data = (\<lambda>_ _ _ _. Inr ((), (), ())),
     data_preprossing = (\<lambda>_ _ _ _. Inr ((), (), (), (), ())),
     n_samples = (\<lambda>_. 1000), n_labels = (\<lambda>_. 1000),
     nside2indexes = (\<lambda>_ _. Inr ()), make_model = (\<lambda>_. Inr ()),
     fit = (\<lambda>_ _ _. Inr ()), model_error = (\<lambda>_ _ _. Inr (1 / 20)),
     fmt_float = (\<lambda>_. ''0.1'')\<rparr>"

section \<open>Lemmas\<close>

lemma sum_not_Inl: "(\<forall>e. x \<noteq> Inl e) \<Longrightarrow> x = Inr (projr x)"
  by (cases x) auto

lemma never_fails_fields:
  assumes "collab_raises_only (\<lambda>_. False) c"
  obtains g1 g2 g3 g4 g5 g6 g7 where
    "get_training_data c = (\<lambda>s o'. Inr (g1 s o'))"
    "get_testing_data c = (\<lambda>s o' n st. Inr (g2 s o' n st))"
    "data_preprossing c = (\<lambda>a b d n. Inr (g3 a b d n))"
    "nside2indexes c = (\<lambda>ns o'. Inr (g4 ns o'))"
    "make_model c = (\<lambda>p. Inr (g5 p))"
    "fit c = (\<lambda>m t v. Inr (g6 m t v))"
    "model_error c = (\<lambda>m x l. Inr (g7 m x l))"
proof -
  from assms have "\<forall>s o'. \<forall>e. get_training_data c s o' \<noteq> Inl e" "\<forall>s o' n st. \<forall>e. get_testing_data c s o' n st \<noteq> Inl e"
    "\<forall>a b d n. \<forall>e. data_preprossing c a b d n \<noteq> Inl e" "\<forall>ns o'. \<forall>e. nside2indexes c ns o' \<noteq> Inl e"
    "\<forall>p. \<forall>e. make_model c p \<noteq> Inl e" "\<forall>m t v. \<forall>e. fit c m t v \<noteq> Inl e" "\<forall>m x l. \<forall>e. model_error c m x l \<noteq> Inl e"
    by (auto simp: collab_raises_only_def)
  then show thesis
    by (intro that [of "\<lambda>s o'. projr (get_training_data c s o')" "\<lambda>s o' n st. projr (get_testing_data c s o' n st)"
        "\<lambda>a b d n. projr (data_preprossing c a b d n)" "\<lambda>ns o'. projr (nside2indexes c ns o')"
        "\<lambda>p. projr (make_model c p)" "\<lambda>m t v. projr (fit c m t v)" "\<lambda>m x l. projr (model_error c m x l)"])
       (auto simp: fun_eq_iff intro: sum_not_Inl)
qed

lemma single_experiment_logs:
  "logs_within (experiment_calls sigma order sn (exp_name (fmt_float c) sn order sigma))
     (single_experiment c sigma order sn)"
  unfolding single_experiment_def Let_def experiment_calls_def
  by (auto intro!: logs_within_rules)

lemma single_experiment_raises_within:
  assumes "collab_raises_only Q c"
  shows "raises_only (\<lambda>e. Q e \<or> (e = ValueError ''No parameters for this value of order.'' \<and> order \<notin> {1, 2, 4}))
     (single_experiment c sigma order sn)"
  using assms unfolding single_experiment_def Let_def collab_raises_only_def
  by (auto intro!: raises_only_rules dest: nsides_of_Inl nsides_of_order_params order_params_build_params)

lemma demo_collab_raises_nothing: "collab_raises_only Q demo_collab"
  by (simp add: collab_raises_only_def demo_collab_def)

lemma single_experiment_result_indep: "result_indep (single_experiment c sigma order sn)"
  unfolding single_experiment_def Let_def by (intro result_indep_rules)

lemma single_experiment_keeps_results:
  assumes "prefix results_path f"
  shows "keeps_file f (single_experiment c sigma order sn)"
proof -
  have "\<not> prefix (summary_dir n) f" "\<not> prefix (checkpoint_dir n) f" for n
    using assms by (auto simp: results_path_def summary_dir_def checkpoint_dir_def prefix_def)
  then show ?thesis unfolding single_experiment_def Let_def by (intro keeps_file_rules)
qed

section \<open>Properties\<close>

text \<open>
  C1. An unsupported order is rejected only after the data is loaded: with
  any order outside {1, 2, 4}, and collaborators that load and preprocess
  successfully, the experiment first calls \<open>get_training_data\<close>,
  \<open>get_testing_data\<close> and \<open>data_preprossing\<close> (lines 20--23) and only then
  raises the \<open>ValueError\<close> of line 42; it prints nothing, builds no model and
  removes no directory. The specification says the error comes before any
  data loading.
\<close>

theorem single_experiment_bad_order:
  assumes "order \<notin> {1, 2, 4}"
    and "get_training_data c sigma order = Inr (xr, lr, st)"
    and "get_testing_data c sigma order sn st = Inr (xt, lt, st')"
    and "data_preprossing c xr lr xt sn = Inr (ft, ltr, fv, lv, fte)"
  shows "single_experiment c sigma order sn w =
    (Inl (ValueError ''No parameters for this value of order.''),
     w\<lparr>calls := calls w @ [GetTrainingData sigma order, GetTestingData sigma order sn, Preprocess sn]\<rparr>)"
  using assms by (simp add: single_experiment_def Let_def act_simps nsides_of_def)

theorem single_experiment_bad_order_witness:
  "single_experiment demo_collab 3 3 (1/10) empty_world =
    (Inl (ValueError ''No parameters for this value of order.''),
     empty_world\<lparr>calls := [GetTrainingData 3 3, GetTestingData 3 3 (1/10), Preprocess (1/10)]\<rparr>)"
proof -
  have o: "(3::int) \<notin> {1, 2, 4}" by simp
  have tr: "get_training_data demo_collab 3 3 = Inr ((), (), ())"
    and te: "get_testing_data demo_collab 3 3 (1/10) () = Inr ((), (), ())"
    and pp: "data_preprossing demo_collab () () () (1/10) = Inr ((), (), (), (), ())"
    by (simp_all add: demo_collab_def)
  show ?thesis
    using single_experiment_bad_order [OF o tr te pp, of empty_world] by (simp add: empty_world_def)
qed

text \<open>
  C4. The run of an experiment that succeeds: for a supported order and
  collaborators that all return, the experiment returns the test error
  computed by \<open>model_error\<close> on the test split (line 116) with the model
  trained by \<open>fit\<close> on the noise-augmented training set (noise from 0 to
  \<open>sigma_noise\<close> over \<open>len(labels_train) // 10\<close> iterations, line 26); it
  prints the schedule and the two error percentages, makes the eight
  collaborator calls in the order of the code, and removes the summary and
  checkpoint trees of its name.
\<close>

theorem single_experiment_success:
  assumes "order_of_int order = Some x"
    and "get_training_data c sigma order = Inr (xr, lr, st)"
    and "get_testing_data c sigma order sn st = Inr (xt, lt, st')"
    and "data_preprossing c xr lr xt sn = Inr (ft, ltr, fv, lv, fte)"
    and "nside2indexes c (spec_schedule x Nside) order = Inr idx"
    and "build_params (exp_name (fmt_float c) sn order sigma) (spec_schedule x Nside) idx (spec_table x)
           (n_samples c ft) = Inr p"
    and "make_model c p = Inr m"
    and "fit c m \<lparr>ds_features = ft, ds_labels = ltr, start_level = 0, end_level = sn,
                   nit = n_labels c ltr div 10\<rparr> \<lparr>ds_features = fv, ds_labels = lv\<rparr> = Inr m'"
    and "model_error c m' fv lv = Inr ev" and "model_error c m' fte lt = Inr et"
  shows "single_experiment c sigma order sn w =
    (Inr et, (cleaned (exp_name (fmt_float c) sn order sigma) w)\<lparr>
       stdout := stdout w @ [''#sides: '' @ py_str_int_list (spec_schedule x Nside),
                              ''The validation error is '' @ fmt_float c (ev * 100) @ ''%'',
                              ''The testing error is '' @ fmt_float c (et * 100) @ ''%''],
       calls := calls w @ experiment_calls sigma order sn (exp_name (fmt_float c) sn order sigma)\<rparr>)"
proof -
  have ns: "nsides_of Nside order = Inr (spec_schedule x Nside)"
    and cfg: "order_params order = Inr (spec_table x)"
    using assms(1) by (simp_all add: nsides_of_spec order_params_spec)
  show ?thesis using assms(2-)
    by (simp add: single_experiment_def Let_def act_simps ns cfg experiment_calls_def cleaned_def
        del: rmtree_effect_fields)
qed

theorem single_experiment_success_witness:
  "fst (single_experiment demo_collab 3 4 (1/10) empty_world) = Inr (1/20)"
proof -
  let ?name = "exp_name (fmt_float demo_collab) (1/10) 4 3"
  let ?ns = "spec_schedule Order4 Nside"
  let ?trn = "\<lparr>ds_features = (), ds_labels = (), start_level = 0, end_level = 1/10,
               nit = n_labels demo_collab () div 10\<rparr>"
  have bp: "build_params ?name ?ns () (spec_table Order4) (n_samples demo_collab ())
      = Inr (projr (build_params ?name ?ns () (spec_table Order4) (n_samples demo_collab ())))"
    by (simp add: build_params_eq [of 20])
  have o: "order_of_int 4 = Some Order4" by (simp add: order_of_int_def)
  have tr: "get_training_data demo_collab 3 4 = Inr ((), (), ())"
    and te: "get_testing_data demo_collab 3 4 (1/10) () = Inr ((), (), ())"
    and pp: "data_preprossing demo_collab () () () (1/10) = Inr ((), (), (), (), ())"
    and ix: "nside2indexes demo_collab ?ns 4 = Inr ()"
    and mm: "make_model demo_collab (projr (build_params ?name ?ns () (spec_table Order4)
           (n_samples demo_collab ()))) = Inr ()"
    and ft: "fit demo_collab () ?trn \<lparr>ds_features = (), ds_labels = ()\<rparr> = Inr ()"
    and me: "model_error demo_collab () () () = Inr (1/20)"
    by (simp_all add: demo_collab_def)
  show ?thesis
    using single_experiment_success [OF o tr te pp ix bp mm ft me me, of empty_world] by simp
qed

text \<open>
  C6. Order of operations and no retry: in every run, returning or raising,
  the collaborator calls an experiment makes are a prefix of the eight calls
  of the code, in that order, each at most once; no call is repeated, skipped
  and made later, or reordered.
\<close>

theorem single_experiment_calls_prefix:
  assumes "single_experiment c sigma order sn w = (r, w')"
  shows "\<exists>cs. calls w' = calls w @ cs
    \<and> prefix cs (experiment_calls sigma order sn (exp_name (fmt_float c) sn order sigma))"
  using single_experiment_logs assms unfolding logs_within_def by blast

theorem single_experiment_calls_prefix_witness:
  "\<exists>cs. calls (snd (single_experiment demo_collab 3 3 (1/10) empty_world)) = [] @ cs
    \<and> prefix cs (experiment_calls 3 3 (1/10) (exp_name (fmt_float demo_collab) (1/10) 3 3))"
  using single_experiment_calls_prefix [OF prod.collapse [symmetric], of demo_collab 3 3 "1/10" empty_world]
  by (simp add: empty_world_def)

text \<open>
  C7. An exception stops the experiment at the call that raised it (section
  7: no recovery): with collaborators that otherwise return, when the call at
  one call site raises \<open>e\<close>, the experiment raises \<open>e\<close> after making exactly
  the calls up to and including that one; no later call is made.
\<close>

theorem single_experiment_stops_at_raise:
  assumes "collab_raises_only (\<lambda>_. False) c" and "order \<in> {1, 2, 4}"
  shows "\<exists>w'. single_experiment (fail_at site e c) sigma order sn w = (Inl e, w')
    \<and> calls w' = calls w @ take (Suc (site_pos site)) (experiment_calls sigma order sn (exp_name (fmt_float c) sn order sigma))"
proof -
  obtain x where x: "order_of_int order = Some x" using assms(2) order_of_int_None by fastforce
  have ns: "nsides_of Nside order = Inr (spec_schedule x Nside)"
    and cfg: "order_params order = Inr (spec_table x)"
    using x by (simp_all add: nsides_of_spec order_params_spec)
  have bs: "batch_size (spec_table x) \<noteq> 0" using spec_table_batch_size_pos [of x] by simp
  obtain g1 g2 g3 g4 g5 g6 g7 where g:
    "get_training_data c = (\<lambda>s o'. Inr (g1 s o'))"
    "get_testing_data c = (\<lambda>s o' n st. Inr (g2 s o' n st))"
    "data_preprossing c = (\<lambda>a b d n. Inr (g3 a b d n))"
    "nside2indexes c = (\<lambda>ns o'. Inr (g4 ns o'))"
    "make_model c = (\<lambda>p. Inr (g5 p))"
    "fit c = (\<lambda>m t v. Inr (g6 m t v))"
    "model_error c = (\<lambda>m x l. Inr (g7 m x l))"
    using never_fails_fields [OF assms(1)] by blast
  show ?thesis
    by (cases site) (simp_all add: single_experiment_def Let_def act_simps g ns cfg build_params_eq [OF bs refl]
        experiment_calls_def split_def del: rmtree_effect_fields)
qed

theorem single_experiment_stops_at_raise_witness:
  "\<exists>w'. single_experiment (fail_at AtFit (ExternalError ''training diverged'') demo_collab) 3 4 (1/10) empty_world
      = (Inl (ExternalError ''training diverged''), w')
    \<and> calls w' = calls empty_world @ take (Suc (site_pos AtFit))
        (experiment_calls 3 4 (1/10) (exp_name (fmt_float demo_collab) (1/10) 4 3))"
proof -
  have o: "(4::int) \<in> {1, 2, 4}" by simp
  show ?thesis by (rule single_experiment_stops_at_raise [OF demo_collab_raises_nothing o])
qed

text \<open>
  C10. Cleanup before training (section 8 of the specification): in a run
  that reaches \<open>fit\<close>, every directory and file under
  \<open>summaries/<name>/\<close> and \<open>checkpoints/<name>/\<close> has been removed, and
  nothing else has, whether or not they existed.
\<close>

theorem single_experiment_cleanup:
  assumes "single_experiment c sigma order sn w = (r, w')"
    and "Fit (exp_name (fmt_float c) sn order sigma) \<notin> set (calls w)"
    and "Fit (exp_name (fmt_float c) sn order sigma) \<in> set (calls w')"
  shows "dirs w' = dirs (cleaned (exp_name (fmt_float c) sn order sigma) w)
    \<and> files w' = files (cleaned (exp_name (fmt_float c) sn order sigma) w)"
  using assms
  by (auto simp: single_experiment_def Let_def act_bind_def rmtree_def py_print_def cleaned_def
      act_update_def act_lift_def act_return_def ext_call_def split: sum.splits prod.splits)

theorem single_experiment_cleanup_witness:
  "dirs (snd (single_experiment demo_collab 3 4 (1/10)
      (empty_world\<lparr>dirs := {summary_dir (exp_name (fmt_float demo_collab) (1/10) 4 3), ''results/''}\<rparr>)))
   = {''results/''}"
proof -
  let ?name = "exp_name (fmt_float demo_collab) (1/10) 4 3"
  let ?w0 = "empty_world\<lparr>dirs := {summary_dir ?name, ''results/''}\<rparr>"
  have f1: "Fit ?name \<notin> set (calls ?w0)" by (simp add: empty_world_def)
  have f2: "Fit ?name \<in> set (calls (snd (single_experiment demo_collab 3 4 (1/10) ?w0)))"
    by (simp add: single_experiment_def Let_def act_simps demo_collab_def nsides_of_def
        order_params_def build_params_def eval_frequency_of_def py_simps n_evaluations_def)
  have "dirs (snd (single_experiment demo_collab 3 4 (1/10) ?w0)) = dirs (cleaned ?name ?w0)"
    using single_experiment_cleanup [OF prod.collapse [symmetric] f1 f2] by blast
  moreover have "\<not> prefix (summary_dir ?name) ''results/''" "\<not> prefix (checkpoint_dir ?name) ''results/''"
    by (simp_all add: summary_dir_def checkpoint_dir_def)
  ultimately show ?thesis by (auto simp: cleaned_def)
qed

text \<open>
  C8. Error taxonomy (section 7): an experiment raises only the
  configuration \<open>ValueError\<close> of line 42, for an unsupported order, or an
  exception of a collaborator, unchanged. The \<open>ValueError\<close> of line 88 and a
  \<open>ZeroDivisionError\<close> from line 103 are never raised.
\<close>

theorem single_experiment_raises:
  assumes "collab_raises_only Q c" and "single_experiment c sigma order sn w = (Inl e, w')"
  shows "Q e \<or> (e = ValueError ''No parameters for this value of order.'' \<and> order \<notin> {1, 2, 4})"
  using single_experiment_raises_within [OF assms(1), of order sigma sn] assms(2)
  unfolding raises_only_def by blast

theorem single_experiment_raises_witness:
  "case fst (single_experiment (fail_at AtFit (ExternalError ''training diverged'') demo_collab) 3 4 (1/10) empty_world) of
     Inl e \<Rightarrow> e = ExternalError ''training diverged''
       \<or> (e = ValueError ''No parameters for this value of order.'' \<and> (4::int) \<notin> {1, 2, 4})
   | Inr _ \<Rightarrow> False"
proof -
  let ?c = "fail_at AtFit (ExternalError ''training diverged'') demo_collab"
  have q: "collab_raises_only (\<lambda>e. e = ExternalError ''training diverged'') ?c"
    by (simp add: collab_raises_only_def demo_collab_def)
  have run: "single_experiment ?c 3 4 (1/10) empty_world =
      (Inl (ExternalError ''training diverged''), snd (single_experiment ?c 3 4 (1/10) empty_world))"
    by (simp add: single_experiment_def Let_def act_simps demo_collab_def nsides_of_def order_params_def
        build_params_def eval_frequency_of_def py_simps n_evaluations_def)
  from single_experiment_raises [OF q run] show ?thesis by (subst run) simp
qed

end
