(* ===== verification/Archive.thy ===== *)
theory Archive
  imports World
begin

text \<open>
  Result persistence, lines 138--145 of \<open>src/results_scnn_with_augmentation.py\<close>:
  after an experiment, its record \<open>[order, sigma_noise, error]\<close> is appended to
  the archive of its \<open>sigma\<close> by reading the whole archive (when the file
  exists), appending in memory and rewriting the file. The lemmas give the
  archive after one save (append, no deduplication), the error when the file
  cannot be read, and the frame: no other archive and no other part of the
  world changes.
\<close>

section \<open>The save routine\<close>

text \<open>Lines 138--145, for the \<open>sigma\<close> and record of one experiment.\<close>

definition save_result :: "int \<Rightarrow> int \<Rightarrow> pyfloat \<Rightarrow> pyfloat \<Rightarrow> (world, unit) act" where
  "save_result sigma order sigma_noise res =
    (let filepath = result_filepath sigma;
         new_data = [of_int order, sigma_noise, res]
     in act_bind (isfile (filepath @ ''.npz'')) (\<lambda>exists.
        act_bind (if exists then np_load_data (filepath @ ''.npz'') else act_return []) (\<lambda>results.
        np_savez filepath (results @ [new_data]))))"

section \<open>The archive of a sigma, as the code sees it\<close>

definition archive_file :: "int \<Rightarrow> string" where
  "archive_file sigma = result_filepath sigma @ ''.npz''"

text \<open>The records stored for \<open>sigma\<close>; none when the file does not exist.\<close>

definition stored_rows :: "world \<Rightarrow> int \<Rightarrow> pyfloat list list" where
  "stored_rows w sigma =
    (case files w (archive_file sigma) of Some (NpzData rows) \<Rightarrow> rows | _ \<Rightarrow> [])"

definition archive_ok :: "world \<Rightarrow> int \<Rightarrow> bool" where
  "archive_ok w sigma \<longleftrightarrow> files w (archive_file sigma) \<noteq> Some NpzCorrupt"

definition record_row :: "int \<Rightarrow> pyfloat \<Rightarrow> pyfloat \<Rightarrow> pyfloat list" where
  "record_row order sigma_noise res = [of_int order, sigma_noise, res]"

section \<open>Lemmas\<close>

lemma archive_file_inj: "archive_file s = archive_file s' \<longleftrightarrow> s = s'"
  by (simp add: archive_file_def result_filepath_inj)

lemma save_result_eq:
  assumes "archive_ok w sigma"
  shows "save_result sigma order sigma_noise res w =
    (Inr (), w\<lparr>files := (files w)(archive_file sigma \<mapsto>
       NpzData (stored_rows w sigma @ [record_row order sigma_noise res]))\<rparr>)"
  using assms
  by (auto simp: save_result_def Let_def act_simps act_bind_def archive_ok_def stored_rows_def archive_file_def
      savez_result_filepath record_row_def split: option.splits npz.splits)

lemma save_result_corrupt_eq:
  assumes "files w (archive_file sigma) = Some NpzCorrupt"
  shows "save_result sigma order sigma_noise res w =
    (Inl (ExternalError ''np.load: not an npz archive''), w)"
  using assms by (simp add: save_result_def Let_def act_simps act_bind_def archive_file_def)

lemma stored_rows_after_save:
  "stored_rows (w\<lparr>files := (files w)(archive_file sigma \<mapsto> NpzData rows)\<rparr>) s =
     (if s = sigma then rows else stored_rows w s)"
  by (simp add: stored_rows_def archive_file_inj)

lemma archive_ok_after_save:
  "archive_ok (w\<lparr>files := (files w)(archive_file sigma \<mapsto> NpzData rows)\<rparr>) s = (s = sigma \<or> archive_ok w s)"
  by (auto simp: archive_ok_def archive_file_inj)

section \<open>Properties\<close>

text \<open>
  C5. Appending: when the archive of \<open>sigma\<close> is absent or readable, saving a
  record succeeds and the archive then holds the records it held before
  followed by the new record \<open>[order, sigma_noise, error]\<close>.
\<close>

theorem save_result_appends:
  assumes "archive_ok w sigma" and "save_result sigma order sigma_noise res w = (r, w')"
  shows "r = Inr () \<and> archive_ok w' sigma
    \<and> stored_rows w' sigma = stored_rows w sigma @ [record_row order sigma_noise res]"
  using assms by (auto simp: save_result_eq stored_rows_after_save archive_ok_after_save)

theorem save_result_appends_witness:
  "stored_rows (snd (save_result 3 4 (1/10) (5/100) empty_world)) 3 = [[4, 1/10, 5/100]]"
proof -
  have ok: "archive_ok empty_world 3" by (simp add: archive_ok_def empty_world_def)
  have "stored_rows (snd (save_result 3 4 (1/10) (5/100) empty_world)) 3
      = stored_rows empty_world 3 @ [record_row 4 (1/10) (5/100)]"
    using save_result_appends [OF ok prod.collapse [symmetric]] by blast
  then show ?thesis by (simp add: stored_rows_def empty_world_def record_row_def)
qed

text \<open>
  C18. Frame: a save touches only the archive of its own \<open>sigma\<close>; the archives
  of every other \<open>sigma\<close>, the directories, the output and the collaborator
  log are unchanged, whether or not the save succeeds.
\<close>

theorem save_result_frame:
  assumes "save_result sigma order sigma_noise res w = (r, w')" and "s \<noteq> sigma"
  shows "files w' (archive_file s) = files w (archive_file s)
    \<and> dirs w' = dirs w \<and> stdout w' = stdout w \<and> calls w' = calls w"
proof (cases "archive_ok w sigma")
  case True
  with assms show ?thesis by (auto simp: save_result_eq archive_file_inj)
next
  case False
  then have "files w (archive_file sigma) = Some NpzCorrupt" by (simp add: archive_ok_def)
  with assms show ?thesis by (simp add: save_result_corrupt_eq)
qed

theorem save_result_frame_witness:
  "files (snd (save_result 3 4 (1/10) (5/100) empty_world)) (archive_file 2) = None"
proof -
  have "files (snd (save_result 3 4 (1/10) (5/100) empty_world)) (archive_file 2)
      = files empty_world (archive_file 2)"
    using save_result_frame [OF prod.collapse [symmetric], of 2] by simp
  then show ?thesis by (simp add: empty_world_def)
qed

text \<open>
  C22. An archive that exists but cannot be read makes the save raise the
  error of \<open>np.load\<close>; nothing is written (section 7 (d) of the
  specification: no recovery).
\<close>

theorem save_result_unreadable:
  assumes "files w (archive_file sigma) = Some NpzCorrupt"
  shows "save_result sigma order sigma_noise res w = (Inl (ExternalError ''np.load: not an npz archive''), w)"
  using assms by (rule save_result_corrupt_eq)

theorem save_result_unreadable_witness:
  "save_result 3 4 (1/10) (5/100) (empty_world\<lparr>files := [archive_file 3 \<mapsto> NpzCorrupt]\<rparr>)
   = (Inl (ExternalError ''np.load: not an npz archive''), empty_world\<lparr>files := [archive_file 3 \<mapsto> NpzCorrupt]\<rparr>)"
  by (rule save_result_unreadable) simp

end
