(* ===== verification/Driver.thy ===== *)
theory Driver
  imports Experiment Archive
begin

text \<open>
  The script's entry point, lines 122--145 of
  \<open>src/results_scnn_with_augmentation.py\<close>: the work list comes from the
  command line (\<open>sigma order sigma_noise\<close>) or from \<open>grid.pgrid()\<close>; the
  result directory is created; then each entry is run by
  \<open>single_experiment\<close> and its record saved by the routine of \<open>Archive\<close>,
  strictly one after the other. The main lemma, \<open>run_grid_rows\<close>, states the
  archives after any run, complete or interrupted by an exception, against
  the specification's view \<open>expected_rows\<close>.
\<close>

section \<open>Definitions\<close>

text \<open>
  The command line's float parser (\<open>float()\<close>, line 127) and the external grid
  generator \<open>grid.pgrid\<close> (line 130).
\<close>

record driver_env =
  parse_float :: "string \<Rightarrow> exc + pyfloat"
  pgrid :: "exc + (int \<times> int \<times> pyfloat) list"

text \<open>Python's \<open>argv[i]\<close>: \<open>IndexError\<close> past the end.\<close>

definition py_nth :: "'a list \<Rightarrow> nat \<Rightarrow> exc + 'a" where
  "py_nth xs i = (if i < length xs then Inr (xs ! i) else Inl (IndexError ''list index out of range''))"

text \<open>The loop of lines 134--145: one experiment, then its record saved, per grid entry.\<close>

fun run_grid :: "('x, 'l, 'st, 'i, 'm) collab \<Rightarrow> (int \<times> int \<times> pyfloat) list \<Rightarrow> (world, unit) act" where
  "run_grid c [] = act_return ()"
| "run_grid c ((sigma, order, sigma_noise) # ps) =
    act_bind (py_print (''Launch experiment for '' @ py_str_int sigma @ '', '' @ py_str_int order
                        @ '', '' @ fmt_float c sigma_noise)) (\<lambda>_.
    act_bind (single_experiment c sigma order sigma_noise) (\<lambda>res.
    act_bind (save_result sigma order sigma_noise res) (\<lambda>_.
    run_grid c ps)))"

text \<open>
  The value an experiment returns: it does not depend on the world
  (\<open>single_experiment_result_indep\<close>), so the empty world serves.
\<close>

definition experiment_value :: "('x, 'l, 'st, 'i, 'm) collab \<Rightarrow> int \<Rightarrow> int \<Rightarrow> pyfloat \<Rightarrow> pyfloat" where
  "experiment_value c sigma order sn =
    (case fst (single_experiment c sigma order sn empty_world) of Inr r \<Rightarrow> r | Inl _ \<Rightarrow> 0)"

text \<open>The specification's view of the archives: one record per grid entry, grouped by \<open>sigma\<close>.\<close>

definition expected_rows ::
  "('x, 'l, 'st, 'i, 'm) collab \<Rightarrow> (int \<times> int \<times> pyfloat) list \<Rightarrow> int \<Rightarrow> pyfloat list list" where
  "expected_rows c ps s =
    concat (map (\<lambda>(sigma, order, sn). if sigma = s then [record_row order sn (experiment_value c sigma order sn)] else []) ps)"

text \<open>
  Why the loop can stop at a grid entry with exception \<open>e\<close>: the entry's
  experiment raises \<open>e\<close>, or its archive, already unreadable in the world the
  loop started from, makes \<open>np.load\<close> raise \<open>e\<close>.
\<close>

definition entry_raises ::
  "('x, 'l, 'st, 'i, 'm) collab \<Rightarrow> world \<Rightarrow> int \<times> int \<times> pyfloat \<Rightarrow> exc \<Rightarrow> bool" where
  "entry_raises c w p e =
    (case p of (sigma, order, sn) \<Rightarrow>
       fst (single_experiment c sigma order sn empty_world) = Inl e
     \<or> (e = ExternalError ''np.load: not an npz archive'' \<and> \<not> archive_ok w sigma))"

text \<open>Lines 124--130: the work list from the command line, or from \<open>pgrid()\<close>.\<close>

definition parse_args :: "driver_env \<Rightarrow> string list \<Rightarrow> (world, (int \<times> int \<times> pyfloat) list) act" where
  "parse_args d argv =
    (if 1 < length argv then
       act_bind (act_lift (py_nth argv 1)) (\<lambda>a1. act_bind (act_lift (py_int_of_str a1)) (\<lambda>sigma.
       act_bind (act_lift (py_nth argv 2)) (\<lambda>a2. act_bind (act_lift (py_int_of_str a2)) (\<lambda>order.
       act_bind (act_lift (py_nth argv 3)) (\<lambda>a3. act_bind (act_lift (parse_float d a3)) (\<lambda>sigma_noise.
       act_return [(sigma, order, sigma_noise)]))))))
     else ext_call PGrid (pgrid d))"

text \<open>Lines 122--145.\<close>

definition main :: "('x, 'l, 'st, 'i, 'm) collab \<Rightarrow> driver_env \<Rightarrow> string list \<Rightarrow> (world, unit) act" where
  "main c d argv =
    act_bind (parse_args d argv) (\<lambda>grid.
    act_bind (makedirs results_path) (\<lambda>_.
    run_grid c grid))"

text \<open>A float parser and a grid for running the theorems on concrete inputs.\<close>

definition demo_env :: driver_env where
  "demo_env =
    \<lparr>parse_float = (\<lambda>s. if s = ''0.1'' then Inr (1/10) else Inl (ValueError ''could not convert string to float'')),
     pgrid = Inr [(3, 4, 1/10), (3, 2, 2/10)]\<rparr>"

section \<open>Lemmas\<close>

lemma archive_file_results: "prefix results_path (archive_file s)"
  by (simp add: archive_file_def result_filepath_eq results_path_def)

lemma archive_not_cleaned:
  "\<not> prefix (summary_dir n) (archive_file s) \<and> \<not> prefix (checkpoint_dir n) (archive_file s)"
  using archive_file_results [of s] by (auto simp: results_path_def summary_dir_def checkpoint_dir_def prefix_def)

lemma single_experiment_stored_rows:
  assumes "single_experiment c sigma order sn w = (r, w')"
  shows "stored_rows w' s = stored_rows w s \<and> archive_ok w' s = archive_ok w s"
proof -
  have "keeps_file (archive_file s) (single_experiment c sigma order sn)"
    by (rule single_experiment_keeps_results [OF archive_file_results])
  then have "files (snd (single_experiment c sigma order sn w)) (archive_file s) = files w (archive_file s)"
    unfolding keeps_file_def by blast
  with assms have "files w' (archive_file s) = files w (archive_file s)" by simp
  then show ?thesis by (simp add: stored_rows_def archive_ok_def)
qed

lemma single_experiment_value:
  "single_experiment c sigma order sn w = (Inr v, w') \<Longrightarrow> v = experiment_value c sigma order sn"
  using single_experiment_result_indep [of c sigma order sn]
  by (auto simp: result_indep_def experiment_value_def dest: spec [of _ w] spec [of _ empty_world])

lemma single_experiment_raise:
  "single_experiment c sigma order sn w = (Inl e, w') \<Longrightarrow> fst (single_experiment c sigma order sn empty_world) = Inl e"
  using single_experiment_result_indep [of c sigma order sn]
  by (auto simp: result_indep_def dest: spec [of _ w] spec [of _ empty_world])

lemma expected_rows_Cons:
  "expected_rows c ((sigma, order, sn) # ps) s =
     (if sigma = s then [record_row order sn (experiment_value c sigma order sn)] else []) @ expected_rows c ps s"
  by (simp add: expected_rows_def)

lemma run_grid_rows:
  assumes "run_grid c grid w = (r, w')"
  shows "\<exists>k \<le> length grid. (\<forall>s. stored_rows w' s = stored_rows w s @ expected_rows c (take k grid) s)
    \<and> (r = Inr () \<longrightarrow> k = length grid)
    \<and> (\<forall>e. r = Inl e \<longrightarrow> k < length grid \<and> entry_raises c w (grid ! k) e)"
  using assms
proof (induction grid arbitrary: w)
  case Nil
  then show ?case by (auto simp: act_simps expected_rows_def)
next
  case (Cons p ps)
  obtain sigma order sn where p: "p = (sigma, order, sn)" by (cases p) auto
  let ?w1 = "w\<lparr>stdout := stdout w @ [''Launch experiment for '' @ py_str_int sigma @ '', ''
                  @ py_str_int order @ '', '' @ fmt_float c sn]\<rparr>"
  obtain r2 w2 where e: "single_experiment c sigma order sn ?w1 = (r2, w2)" by fastforce
  have rows2: "stored_rows w2 s = stored_rows w s" "archive_ok w2 s = archive_ok w s" for s
    using single_experiment_stored_rows [OF e] by (simp_all add: stored_rows_def archive_ok_def)
  show ?case
  proof (cases r2)
    case (Inl e')
    with Cons.prems p e have "w' = w2" "r = Inl e'" by (simp_all add: act_simps act_bind_def)
    moreover have "fst (single_experiment c sigma order sn empty_world) = Inl e'"
      using e Inl by (intro single_experiment_raise [of _ _ _ _ ?w1 _ w2]) simp
    ultimately show ?thesis using rows2
      by (intro exI [of _ 0]) (simp add: expected_rows_def entry_raises_def p)
  next
    case (Inr v)
    then have v: "v = experiment_value c sigma order sn" using single_experiment_value e by blast
    show ?thesis
    proof (cases "archive_ok w2 sigma")
      case False
      then have "files w2 (archive_file sigma) = Some NpzCorrupt" by (simp add: archive_ok_def)
      then have "save_result sigma order sn v w2 = (Inl (ExternalError ''np.load: not an npz archive''), w2)"
        by (rule save_result_corrupt_eq)
      with Cons.prems p e Inr have "(r, w') = (Inl (ExternalError ''np.load: not an npz archive''), w2)"
        by (simp add: act_simps act_bind_def)
      with rows2 False show ?thesis
        by (intro exI [of _ 0]) (simp add: expected_rows_def entry_raises_def p)
    next
      case True
      let ?w3 = "w2\<lparr>files := (files w2)(archive_file sigma \<mapsto> NpzData (stored_rows w2 sigma @ [record_row order sn v]))\<rparr>"
      from Cons.prems p e Inr True have rest: "run_grid c ps ?w3 = (r, w')"
        by (simp add: act_simps act_bind_def save_result_eq)
      from Cons.IH [OF rest] obtain k where k: "k \<le> length ps"
        and rows: "\<forall>s. stored_rows w' s = stored_rows ?w3 s @ expected_rows c (take k ps) s"
        and fin: "r = Inr () \<longrightarrow> k = length ps"
          "\<forall>e. r = Inl e \<longrightarrow> k < length ps \<and> entry_raises c ?w3 (ps ! k) e" by blast
      have "stored_rows w' s = stored_rows w s @ expected_rows c (take (Suc k) (p # ps)) s" for s
        using rows rows2 by (simp add: p stored_rows_after_save expected_rows_Cons v)
      moreover have "archive_ok ?w3 s = archive_ok w s" for s
        using rows2 True by (auto simp: archive_ok_after_save)
      then have "entry_raises c ?w3 = entry_raises c w" by (simp add: entry_raises_def fun_eq_iff)
      ultimately show ?thesis using k fin by (intro exI [of _ "Suc k"]) simp
    qed
  qed
qed


lemma main_single_eq:
  assumes "py_int_of_str a1 = Inr sigma" "py_int_of_str a2 = Inr order" "parse_float d a3 = Inr sn"
  shows "main c d (prog # a1 # a2 # a3 # rest) w =
    run_grid c [(sigma, order, sn)] (w\<lparr>dirs := dirs w \<union> set (dir_prefixes results_path)\<rparr>)"
  using assms by (simp add: main_def parse_args_def py_nth_def act_simps act_bind_assoc)

section \<open>Properties\<close>

text \<open>
  C2. Refinement of the specification's persistence contract (sections 4.3
  and 8): after a run of the loop over a grid that completes, the archive of
  every \<open>sigma\<close> holds its previous records followed by one record
  \<open>[order, sigma_noise, error]\<close> per grid entry with that \<open>sigma\<close>, in grid
  order, and no other.
\<close>

theorem run_grid_archives:
  assumes "run_grid c grid w = (Inr (), w')"
  shows "stored_rows w' s = stored_rows w s @ expected_rows c grid s"
  using run_grid_rows [OF assms] by auto

theorem run_grid_archives_witness:
  "stored_rows (snd (run_grid demo_collab [(3, 4, 1/10)] empty_world)) 3
     = [] @ expected_rows demo_collab [(3, 4, 1/10)] 3"
proof -
  have "run_grid demo_collab [(3, 4, 1/10)] empty_world
      = (Inr (), snd (run_grid demo_collab [(3, 4, 1/10)] empty_world))"
    by (simp add: act_simps act_bind_assoc single_experiment_def Let_def demo_collab_def nsides_of_def
        order_params_def build_params_def eval_frequency_of_def py_simps n_evaluations_def
        save_result_def archive_file_def empty_world_def)
  from run_grid_archives [OF this, of 3] show ?thesis by (simp add: stored_rows_def empty_world_def)
qed

text \<open>
  C9. An exception stops the run (section 7): when the loop raises \<open>e\<close>, there
  is a grid entry \<open>k\<close> that raised it, because its experiment raises \<open>e\<close> or
  its archive was unreadable from the start, and the archives hold exactly
  the records of the entries before \<open>k\<close>; entry \<open>k\<close> and those after it write
  nothing, and nothing written before is undone.
\<close>

theorem run_grid_stops:
  assumes "run_grid c grid w = (Inl e, w')"
  shows "\<exists>k < length grid. (\<forall>s. stored_rows w' s = stored_rows w s @ expected_rows c (take k grid) s)
    \<and> entry_raises c w (grid ! k) e"
  using run_grid_rows [OF assms] by auto

theorem run_grid_stops_witness:
  "\<exists>k < length [(3::int, 4::int, 1/10::rat), (3, 3, 1/10)].
     (\<forall>s. stored_rows (snd (run_grid demo_collab [(3, 4, 1/10), (3, 3, 1/10)] empty_world)) s
       = stored_rows empty_world s @ expected_rows demo_collab (take k [(3, 4, 1/10), (3, 3, 1/10)]) s)
     \<and> entry_raises demo_collab empty_world ([(3, 4, 1/10), (3, 3, 1/10)] ! k)
         (ValueError ''No parameters for this value of order.'')"
proof -
  have "run_grid demo_collab [(3, 4, 1/10), (3, 3, 1/10)] empty_world
      = (Inl (ValueError ''No parameters for this value of order.''),
         snd (run_grid demo_collab [(3, 4, 1/10), (3, 3, 1/10)] empty_world))"
    by (simp add: act_simps act_bind_assoc single_experiment_def Let_def demo_collab_def nsides_of_def
        order_params_def build_params_def eval_frequency_of_def py_simps n_evaluations_def
        save_result_def archive_file_def empty_world_def)
  then show ?thesis by (rule run_grid_stops)
qed

text \<open>
  C17. A command line with one or two arguments is not a work list: after
  parsing \<open>sigma\<close> (and \<open>order\<close>), reading the missing \<open>argv\<close> entry raises
  \<open>IndexError\<close>; no experiment runs and no directory is created.
\<close>

theorem main_short_argv:
  assumes "py_int_of_str a1 = Inr sigma"
  shows "main c d [prog, a1] w = (Inl (IndexError ''list index out of range''), w)
    \<and> (py_int_of_str a2 = Inr order \<longrightarrow>
         main c d [prog, a1, a2] w = (Inl (IndexError ''list index out of range''), w))"
  using assms by (simp add: main_def parse_args_def py_nth_def act_simps act_bind_assoc)

theorem main_short_argv_witness:
  "main demo_collab demo_env [''prog'', ''3''] empty_world
     = (Inl (IndexError ''list index out of range''), empty_world)"
proof -
  have "py_int_of_str ''3'' = Inr 3"
    by (simp add: py_int_of_str_def py_strip_def py_isspace_def decimal_ok_def py_isdigit_def
        decimal_value_def digit_value_def)
  from main_short_argv [OF this, of demo_collab demo_env "''prog''" empty_world] show ?thesis by blast
qed

lemma main_pgrid_eq:
  assumes "length argv \<le> 1" and "pgrid d = Inr grid"
  shows "main c d argv w =
    run_grid c grid (w\<lparr>calls := calls w @ [PGrid], dirs := dirs w \<union> set (dir_prefixes results_path)\<rparr>)"
  using assms by (simp add: main_def parse_args_def act_simps act_bind_assoc)

text \<open>
  C23. Without arguments the script works through the whole grid of
  \<open>pgrid()\<close>: when the run completes, the archive of every \<open>sigma\<close> holds its
  previous records followed by one record per grid entry with that \<open>sigma\<close>,
  in grid order.
\<close>

theorem main_grid_archives:
  assumes "length argv \<le> 1" and "pgrid d = Inr grid" and "main c d argv w = (Inr (), w')"
  shows "stored_rows w' s = stored_rows w s @ expected_rows c grid s"
proof -
  let ?w1 = "w\<lparr>calls := calls w @ [PGrid], dirs := dirs w \<union> set (dir_prefixes results_path)\<rparr>"
  have "run_grid c grid ?w1 = (Inr (), w')"
    using assms(3) by (simp only: main_pgrid_eq [OF assms(1,2)])
  from run_grid_rows [OF this] have "stored_rows w' s = stored_rows ?w1 s @ expected_rows c grid s"
    by auto
  then show ?thesis by (simp add: stored_rows_def)
qed

theorem main_grid_archives_witness:
  "stored_rows (snd (main demo_collab demo_env [''prog''] empty_world)) 3
    = [] @ expected_rows demo_collab [(3, 4, 1/10), (3, 2, 2/10)] 3"
proof -
  have l: "length [''prog''] \<le> (1::nat)" and g: "pgrid demo_env = Inr [(3, 4, 1/10), (3, 2, 2/10)]"
    by (simp_all add: demo_env_def)
  have run: "main demo_collab demo_env [''prog''] empty_world
      = (Inr (), snd (main demo_collab demo_env [''prog''] empty_world))"
    by (simp add: main_pgrid_eq [OF l g] act_simps act_bind_assoc single_experiment_def Let_def
        demo_collab_def nsides_of_def order_params_def build_params_def eval_frequency_of_def py_simps
        n_evaluations_def save_result_def savez_result_filepath archive_not_cleaned [unfolded archive_file_def]
        empty_world_def)
  from main_grid_archives [OF l g run] show ?thesis by (simp add: stored_rows_def empty_world_def)
qed

end
