(* ===== verification/Concurrency.thy ===== *)
theory Concurrency
  imports Archive "HOL-Library.Multiset"
begin

text \<open>
  Several processes of the script run at once (specification, section 5):
  the archive of a \<open>sigma\<close> is then shared, and its read-modify-rewrite
  update, lines 140--145 of \<open>src/results_scnn_with_augmentation.py\<close>, is
  no longer atomic. Each process is a small state machine whose steps are the
  file-system calls of \<open>save_result\<close> (\<open>os.path.isfile\<close>, \<open>np.load\<close>,
  \<open>np.savez\<close>), written with the library calls of \<open>World\<close>; the system
  steps one process at a time, in any order (\<open>sys_step\<close>). The theorems: one
  process alone is \<open>save_result\<close>; two processes on one \<open>sigma\<close> can lose a
  record; no interleaving invents, duplicates or reorders records (an
  invariant proved by rule induction over \<open>sys_step\<close>).
\<close>

section \<open>Processes\<close>

text \<open>
  Where a process is inside lines 138--145: about to test the file
  (\<open>Ready\<close>), having tested it (\<open>Checked\<close>, the result of
  \<open>os.path.isfile\<close>), holding the list \<open>results\<close> (\<open>Loaded\<close>), finished
  (\<open>Done\<close>), or stopped by an exception (\<open>Crashed\<close>). \<open>new_data\<close> is the
  record to append.
\<close>

datatype proc =
    Ready int "pyfloat list"
  | Checked int "pyfloat list" bool
  | Loaded int "pyfloat list" "pyfloat list list"
  | Done int "pyfloat list"
  | Crashed exc

fun active :: "proc \<Rightarrow> bool" where
  "active (Done _ _) = False"
| "active (Crashed _) = False"
| "active _ = True"

text \<open>One library call of a process; an exception ends the process.\<close>

definition run_phase :: "(world, 'a) act \<Rightarrow> ('a \<Rightarrow> proc) \<Rightarrow> world \<Rightarrow> proc \<times> world" where
  "run_phase m k w = (case m w of (Inr x, w') \<Rightarrow> (k x, w') | (Inl e, w') \<Rightarrow> (Crashed e, w'))"

text \<open>Lines 140, 141--143 and 144--145, one step each.\<close>

fun proc_step :: "proc \<Rightarrow> world \<Rightarrow> proc \<times> world" where
  "proc_step (Ready sigma new_data) =
     run_phase (isfile (result_filepath sigma @ ''.npz'')) (Checked sigma new_data)"
| "proc_step (Checked sigma new_data exists) =
     run_phase (if exists then np_load_data (result_filepath sigma @ ''.npz'') else act_return [])
       (Loaded sigma new_data)"
| "proc_step (Loaded sigma new_data results) =
     run_phase (np_savez (result_filepath sigma) (results @ [new_data])) (\<lambda>_. Done sigma new_data)"
| "proc_step p = (\<lambda>w. (p, w))"

declare proc_step.simps [simp del]

text \<open>A process running alone for at most \<open>n\<close> steps.\<close>

fun proc_run :: "nat \<Rightarrow> proc \<Rightarrow> world \<Rightarrow> proc \<times> world" where
  "proc_run 0 p w = (p, w)"
| "proc_run (Suc n) p w = (if active p then (case proc_step p w of (p', w') \<Rightarrow> proc_run n p' w') else (p, w))"

section \<open>Interleaving\<close>

text \<open>Any process that has not finished takes its next step.\<close>

inductive sys_step :: "world \<times> proc list \<Rightarrow> world \<times> proc list \<Rightarrow> bool" where
  step: "i < length ps \<Longrightarrow> active (ps ! i) \<Longrightarrow> proc_step (ps ! i) w = (p', w')
    \<Longrightarrow> sys_step (w, ps) (w', ps[i := p'])"

text \<open>The records of the finished saves for \<open>s\<close>.\<close>

fun done_row :: "int \<Rightarrow> proc \<Rightarrow> pyfloat list list" where
  "done_row s (Done sigma row) = (if sigma = s then [row] else [])"
| "done_row s _ = []"

definition done_rows :: "int \<Rightarrow> proc list \<Rightarrow> pyfloat list list" where
  "done_rows s ps = concat (map (done_row s) ps)"

text \<open>
  The invariant of concurrent saves, per \<open>sigma\<close> whose archive was readable
  at the start (\<open>w0\<close>): the archive is still readable and holds its initial
  records followed by new records, each the record of a distinct finished
  save for that \<open>sigma\<close>; a process that has read the archive holds such a
  list too; a process that found no file started from an empty archive.
\<close>

definition sigma_inv :: "world \<Rightarrow> world \<Rightarrow> proc list \<Rightarrow> int \<Rightarrow> bool" where
  "sigma_inv w0 w ps s \<longleftrightarrow>
     archive_ok w s
   \<and> (\<exists>ys. stored_rows w s = stored_rows w0 s @ ys \<and> mset ys \<subseteq># mset (done_rows s ps))
   \<and> (\<forall>r rows. Loaded s r rows \<in> set ps \<longrightarrow>
        (\<exists>zs. rows = stored_rows w0 s @ zs \<and> mset zs \<subseteq># mset (done_rows s ps)))
   \<and> (\<forall>r. Checked s r False \<in> set ps \<longrightarrow> stored_rows w0 s = [])"

definition conc_inv :: "world \<Rightarrow> world \<times> proc list \<Rightarrow> bool" where
  "conc_inv w0 st \<longleftrightarrow> (\<forall>s. archive_ok w0 s \<longrightarrow> sigma_inv w0 (fst st) (snd st) s)"

text \<open>A process stays the save of its job \<open>(sigma, record)\<close>, or has crashed.\<close>

fun proc_job :: "proc \<Rightarrow> int \<times> pyfloat list \<Rightarrow> bool" where
  "proc_job (Ready s r) j = (j = (s, r))"
| "proc_job (Checked s r _) j = (j = (s, r))"
| "proc_job (Loaded s r _) j = (j = (s, r))"
| "proc_job (Done s r) j = (j = (s, r))"
| "proc_job (Crashed _) j = True"

definition job_rows :: "int \<Rightarrow> (int \<times> pyfloat list) list \<Rightarrow> pyfloat list list" where
  "job_rows s jobs = map snd (filter (\<lambda>j. fst j = s) jobs)"

definition start :: "world \<Rightarrow> (int \<times> pyfloat list) list \<Rightarrow> world \<times> proc list" where
  "start w jobs = (w, map (\<lambda>(s, r). Ready s r) jobs)"

section \<open>Lemmas\<close>

lemma proc_step_Ready:
  "proc_step (Ready s r) w = (Checked s r (files w (archive_file s) \<noteq> None), w)"
  by (simp add: proc_step.simps run_phase_def act_simps isfile_def archive_file_def)

lemma proc_step_Checked_False:
  "proc_step (Checked s r False) w = (Loaded s r [], w)"
  by (simp add: proc_step.simps run_phase_def act_simps)

lemma proc_step_Checked_True:
  "proc_step (Checked s r True) w =
    (case files w (archive_file s) of
       None \<Rightarrow> Crashed (ExternalError ''FileNotFoundError'')
     | Some NpzCorrupt \<Rightarrow> Crashed (ExternalError ''np.load: not an npz archive'')
     | Some (NpzData rows) \<Rightarrow> Loaded s r rows, w)"
  by (simp add: proc_step.simps run_phase_def act_simps np_load_data_def archive_file_def
      split: option.split npz.split)

lemma proc_step_Loaded:
  "proc_step (Loaded s r rows) w = (Done s r, w\<lparr>files := (files w)(archive_file s \<mapsto> NpzData (rows @ [r]))\<rparr>)"
  by (simp add: proc_step.simps run_phase_def act_simps np_savez_def archive_file_def savez_result_filepath)

lemma proc_step_idle: "\<not> active p \<Longrightarrow> proc_step p w = (p, w)"
  by (cases p) (simp_all add: proc_step.simps)

lemmas proc_step_simps = proc_step_Ready proc_step_Checked_False proc_step_Checked_True proc_step_Loaded

text \<open>The read phase of a process sees exactly the records stored for its \<open>sigma\<close>.\<close>

lemma proc_step_reads_stored:
  "archive_ok w s \<Longrightarrow>
    proc_step (Checked s r (files w (archive_file s) \<noteq> None)) w = (Loaded s r (stored_rows w s), w)"
  by (cases "files w (archive_file s)")
     (auto simp: proc_step_simps stored_rows_def archive_ok_def split: npz.split)

lemma sys_step_intro:
  "i < length ps \<Longrightarrow> active (ps ! i) \<Longrightarrow> proc_step (ps ! i) w = (p', w') \<Longrightarrow> qs = ps[i := p']
    \<Longrightarrow> sys_step (w, ps) (w', qs)"
  by (auto intro: sys_step.step)

inductive_cases sys_stepE: "sys_step (w, ps) (w', ps')"

lemma done_rows_update:
  "i < length ps \<Longrightarrow>
    mset (done_rows s (ps[i := p])) + mset (done_row s (ps ! i)) = mset (done_rows s ps) + mset (done_row s p)"
proof (induction ps arbitrary: i)
  case (Cons q ps)
  then show ?case by (cases i) (simp_all add: done_rows_def add_ac)
qed simp

lemma done_rows_update_active:
  "i < length ps \<Longrightarrow> active (ps ! i) \<Longrightarrow>
    mset (done_rows s (ps[i := p])) = mset (done_rows s ps) + mset (done_row s p)"
  using done_rows_update [of i ps s p] by (cases "ps ! i") simp_all

lemma in_set_update_cases: "q \<in> set (ps[i := p]) \<Longrightarrow> q \<in> set ps \<or> q = p"
  using set_update_subset_insert by fastforce

lemma subset_mset_add_rightI: "A \<subseteq># B \<Longrightarrow> A \<subseteq># B + C"
  by (metis subset_mset.order_trans mset_subset_eq_add_left)

lemma subset_mset_add_msetI: "A \<subseteq># B \<Longrightarrow> A \<subseteq># add_mset x B"
  using subset_mset_add_rightI [of A B "{#x#}"] by simp

lemma sigma_inv_step:
  assumes i: "i < length ps" "active (ps ! i)" and st: "proc_step (ps ! i) w = (p', w')"
    and inv: "sigma_inv w0 w ps s"
  shows "sigma_inv w0 w' (ps[i := p']) s"
proof -
  have D: "mset (done_rows s (ps[i := p'])) = mset (done_rows s ps) + mset (done_row s p')"
    using i by (rule done_rows_update_active)
  have cur: "ps ! i \<in> set ps" using i by simp
  obtain ys where ys: "stored_rows w s = stored_rows w0 s @ ys" "mset ys \<subseteq># mset (done_rows s ps)"
    using inv by (auto simp: sigma_inv_def)
  show ?thesis
  proof (cases "ps ! i")
    case (Ready s0 r)
    with st have "w' = w \<and> p' = Checked s0 r (files w (archive_file s0) \<noteq> None)"
      by (auto simp: proc_step_simps)
    then have w': "w' = w" and p': "p' = Checked s0 r (files w (archive_file s0) \<noteq> None)" by simp_all
    have "stored_rows w0 s = []" if "s0 = s" "files w (archive_file s) = None"
      using ys(1) that by (simp add: stored_rows_def)
    with inv D show ?thesis
      by (auto simp: sigma_inv_def w' p' dest!: in_set_update_cases)
  next
    case (Checked s0 r b)
    then have old: "Checked s0 r b \<in> set ps" using cur by simp
    from st Checked obtain rows where w': "w' = w"
      and p': "p' = Loaded s0 r rows \<and> (b \<and> files w (archive_file s0) = Some (NpzData rows) \<or> \<not> b \<and> rows = [])
               \<or> (\<exists>e. p' = Crashed e)"
      by (cases b) (auto simp: proc_step_simps split: option.splits npz.splits)
    have new: "\<exists>zs. rows = stored_rows w0 s @ zs \<and> mset zs \<subseteq># mset (done_rows s ps)"
      if "p' = Loaded s r rows" "s0 = s"
    proof (cases b)
      case True
      with p' that have "files w (archive_file s) = Some (NpzData rows)" by auto
      with ys show ?thesis by (auto simp: stored_rows_def)
    next
      case False
      with p' that old inv show ?thesis by (auto simp: sigma_inv_def)
    qed
    from inv D p' new show ?thesis
      by (auto simp: sigma_inv_def w' dest!: in_set_update_cases)
  next
    case (Loaded s0 r rows)
    with st have w': "w' = w\<lparr>files := (files w)(archive_file s0 \<mapsto> NpzData (rows @ [r]))\<rparr>"
      and p': "p' = Done s0 r" by (simp_all add: proc_step_simps)
    have grow: "mset (done_rows s ps) \<subseteq># mset (done_rows s (ps[i := p']))" by (simp add: D)
    have rows_s: "\<exists>zs. stored_rows w' s = stored_rows w0 s @ zs \<and> mset zs \<subseteq># mset (done_rows s (ps[i := p']))"
    proof (cases "s0 = s")
      case True
      with Loaded cur inv obtain zs where "rows = stored_rows w0 s @ zs" "mset zs \<subseteq># mset (done_rows s ps)"
        by (auto simp: sigma_inv_def)
      moreover have "mset (done_rows s (ps[i := p'])) = mset (done_rows s ps) + {#r#}"
        using D True by (simp add: p')
      ultimately show ?thesis using True
        by (intro exI [of _ "zs @ [r]"]) (simp add: w' stored_rows_after_save)
    next
      case False
      with ys grow show ?thesis
        by (intro exI [of _ ys]) (auto simp: w' stored_rows_after_save intro: subset_mset.order_trans)
    qed
    have loaded: "\<exists>zs. rows' = stored_rows w0 s @ zs \<and> mset zs \<subseteq># mset (done_rows s (ps[i := p']))"
      if "Loaded s r' rows' \<in> set (ps[i := p'])" for r' rows'
    proof -
      from that have "Loaded s r' rows' \<in> set ps" by (auto simp: p' dest!: in_set_update_cases)
      with inv obtain zs where "rows' = stored_rows w0 s @ zs" "mset zs \<subseteq># mset (done_rows s ps)"
        by (auto simp: sigma_inv_def)
      with grow show ?thesis by (intro exI [of _ zs]) (auto intro: subset_mset.order_trans)
    qed
    from inv rows_s loaded show ?thesis
      by (auto simp: sigma_inv_def w' p' archive_ok_after_save dest!: in_set_update_cases)
  qed (use i in simp_all)
qed

lemma proc_job_step:
  "proc_step p w = (p', w') \<Longrightarrow> proc_job p j \<Longrightarrow> proc_job p' j"
proof (cases p)
  case (Checked s r b)
  then show "proc_step p w = (p', w') \<Longrightarrow> proc_job p j \<Longrightarrow> ?thesis"
    by (cases b) (auto simp: proc_step_simps split: option.splits npz.splits)
qed (auto simp: proc_step_simps proc_step_idle)

lemma done_rows_job_rows:
  "list_all2 proc_job ps jobs \<Longrightarrow> mset (done_rows s ps) \<subseteq># mset (job_rows s jobs)"
proof (induction ps jobs rule: list_all2_induct)
  case (Cons p ps j jobs)
  then show ?case
    by (cases p) (auto simp: done_rows_def job_rows_def intro: subset_mset_add_msetI)
qed (simp add: done_rows_def job_rows_def)

lemma sys_step_jobs:
  "sys_step (w, ps) (w', ps') \<Longrightarrow> list_all2 proc_job ps jobs \<Longrightarrow> list_all2 proc_job ps' jobs"
  by (elim sys_stepE) (auto simp: list_all2_conv_all_nth nth_list_update intro: proc_job_step)

lemma conc_inv_start: "conc_inv w (start w jobs)"
  by (auto simp: conc_inv_def sigma_inv_def start_def done_rows_def)

lemma conc_inv_sys_step: "sys_step st st' \<Longrightarrow> conc_inv w0 st \<Longrightarrow> conc_inv w0 st'"
  by (elim sys_step.cases) (auto simp: conc_inv_def intro: sigma_inv_step)

lemma start_reach_inv:
  assumes "sys_step\<^sup>*\<^sup>* (start w0 jobs) (w, ps)"
  shows "conc_inv w0 (w, ps) \<and> list_all2 proc_job ps jobs"
  using assms
proof (induction "(w, ps)" arbitrary: w ps rule: rtranclp_induct)
  case base
  then show ?case
    using conc_inv_start [of w0 jobs] by (auto simp: start_def list_all2_conv_all_nth split: prod.splits)
next
  case (step st)
  then show ?case
    by (cases st) (auto intro: conc_inv_sys_step sys_step_jobs)
qed

text \<open>
  A process running alone performs exactly \<open>save_result\<close>: after its three
  steps it has finished with the world \<open>save_result\<close> leaves, or crashed with
  the exception \<open>save_result\<close> raises. This links the process model to the
  sequential code.
\<close>

lemma save_result_process_refines:
  "proc_run 3 (Ready sigma (record_row order sn res)) w =
    (case fst (save_result sigma order sn res w) of
       Inr _ \<Rightarrow> Done sigma (record_row order sn res) | Inl e \<Rightarrow> Crashed e,
     snd (save_result sigma order sn res w))"
proof (cases "files w (result_filepath sigma @ ''.npz'')")
  case None
  then show ?thesis
    by (simp add: proc_step.simps save_result_def Let_def record_row_def run_phase_def act_simps isfile_def np_savez_def numeral_3_eq_3)
next
  case (Some f)
  then show ?thesis
    by (cases f) (simp_all add: proc_step.simps save_result_def Let_def record_row_def run_phase_def act_simps act_bind_assoc isfile_def np_savez_def
        np_load_data_def numeral_3_eq_3)
qed

section \<open>Properties\<close>

text \<open>
  C11. Lost update (specification, sections 4.3 and 5): two processes saving a
  record for the same \<open>sigma\<close> can both finish while the archive keeps only the
  second record, because both read the archive before either rewrites it.
\<close>

theorem concurrent_save_lost_update:
  assumes "archive_ok w s"
  shows "\<exists>w'. sys_step\<^sup>*\<^sup>* (w, [Ready s r1, Ready s r2]) (w', [Done s r1, Done s r2])
    \<and> stored_rows w' s = stored_rows w s @ [r2]"
proof -
  let ?b = "files w (archive_file s) \<noteq> None" and ?rs = "stored_rows w s"
  let ?w1 = "w\<lparr>files := (files w)(archive_file s \<mapsto> NpzData (?rs @ [r1]))\<rparr>"
  let ?w2 = "?w1\<lparr>files := (files ?w1)(archive_file s \<mapsto> NpzData (?rs @ [r2]))\<rparr>"
  have rd: "proc_step (Checked s r ?b) w = (Loaded s r ?rs, w)" for r
    using assms by (rule proc_step_reads_stored)
  have s1: "sys_step (w, [Ready s r1, Ready s r2]) (w, [Checked s r1 ?b, Ready s r2])"
    by (rule sys_step_intro [where i = 0]) (simp_all add: proc_step_simps)
  have s2: "sys_step (w, [Checked s r1 ?b, Ready s r2]) (w, [Checked s r1 ?b, Checked s r2 ?b])"
    by (rule sys_step_intro [where i = 1]) (simp_all add: proc_step_simps)
  have s3: "sys_step (w, [Checked s r1 ?b, Checked s r2 ?b]) (w, [Loaded s r1 ?rs, Checked s r2 ?b])"
    by (rule sys_step_intro [where i = 0]) (simp_all add: rd del: not_None_eq)
  have s4: "sys_step (w, [Loaded s r1 ?rs, Checked s r2 ?b]) (w, [Loaded s r1 ?rs, Loaded s r2 ?rs])"
    by (rule sys_step_intro [where i = 1]) (simp_all add: rd del: not_None_eq)
  have s5: "sys_step (w, [Loaded s r1 ?rs, Loaded s r2 ?rs]) (?w1, [Done s r1, Loaded s r2 ?rs])"
    by (rule sys_step_intro [where i = 0]) (simp_all add: proc_step_simps)
  have s6: "sys_step (?w1, [Done s r1, Loaded s r2 ?rs]) (?w2, [Done s r1, Done s r2])"
    by (rule sys_step_intro [where i = 1]) (simp_all add: proc_step_simps)
  have "sys_step\<^sup>*\<^sup>* (w, [Ready s r1, Ready s r2]) (?w2, [Done s r1, Done s r2])"
    using s1 s2 s3 s4 s5 s6 by (meson rtranclp.rtrancl_into_rtrancl r_into_rtranclp)
  moreover have "stored_rows ?w2 s = ?rs @ [r2]" by (simp add: stored_rows_def)
  ultimately show ?thesis by blast
qed

theorem concurrent_save_lost_update_witness:
  "\<exists>w'. sys_step\<^sup>*\<^sup>* (empty_world, [Ready 3 [1], Ready 3 [2]]) (w', [Done 3 [1], Done 3 [2]])
    \<and> stored_rows w' 3 = stored_rows empty_world 3 @ [[2]]"
  by (rule concurrent_save_lost_update) (simp add: archive_ok_def empty_world_def)

text \<open>
  C12. Soundness of concurrent saves: in every interleaving of processes
  saving the records of a list of jobs, the archive of each \<open>sigma\<close> that was
  readable at the start stays readable and holds its initial records followed
  by new ones, each the record of a distinct job for that \<open>sigma\<close>: records
  can be lost, but never invented, duplicated or reordered before the old
  ones.
\<close>

theorem concurrent_saves_sound:
  assumes "sys_step\<^sup>*\<^sup>* (start w0 jobs) (w, ps)" and "archive_ok w0 s"
  shows "archive_ok w s \<and> (\<exists>ys. stored_rows w s = stored_rows w0 s @ ys \<and> mset ys \<subseteq># mset (job_rows s jobs))"
proof -
  from start_reach_inv [OF assms(1)] assms(2) have inv: "sigma_inv w0 w ps s"
    and jobs: "list_all2 proc_job ps jobs" by (auto simp: conc_inv_def)
  from inv obtain ys where "stored_rows w s = stored_rows w0 s @ ys" "mset ys \<subseteq># mset (done_rows s ps)"
    and "archive_ok w s" by (auto simp: sigma_inv_def)
  with done_rows_job_rows [OF jobs, of s] show ?thesis by (auto intro: subset_mset.order_trans)
qed

theorem concurrent_saves_sound_witness:
  "archive_ok (empty_world\<lparr>files := (files empty_world)(archive_file 3 \<mapsto> NpzData [[1]])\<rparr>) 3
   \<and> (\<exists>ys. stored_rows (empty_world\<lparr>files := (files empty_world)(archive_file 3 \<mapsto> NpzData [[1]])\<rparr>) 3
        = stored_rows empty_world 3 @ ys \<and> mset ys \<subseteq># mset (job_rows 3 [(3, [1])]))"
proof -
  let ?w1 = "empty_world\<lparr>files := (files empty_world)(archive_file 3 \<mapsto> NpzData [[1]])\<rparr>"
  have s1: "sys_step (start empty_world [(3, [1])]) (empty_world, [Checked 3 [1] False])"
    unfolding start_def by (rule sys_step_intro [where i = 0]) (simp_all add: proc_step_simps empty_world_def)
  have s2: "sys_step (empty_world, [Checked 3 [1] False]) (empty_world, [Loaded 3 [1] []])"
    by (rule sys_step_intro [where i = 0]) (simp_all add: proc_step_simps)
  have s3: "sys_step (empty_world, [Loaded 3 [1] []]) (?w1, [Done 3 [1]])"
    by (rule sys_step_intro [where i = 0]) (simp_all add: proc_step_simps)
  have run: "sys_step\<^sup>*\<^sup>* (start empty_world [(3, [1])]) (?w1, [Done 3 [1]])"
    using s1 s2 s3 by (meson rtranclp.rtrancl_into_rtrancl r_into_rtranclp)
  have ok: "archive_ok empty_world 3" by (simp add: archive_ok_def empty_world_def)
  from concurrent_saves_sound [OF run ok] show ?thesis .
qed

end
