(* ===== verification/Spec2Isabelle.thy ===== *)
theory Spec2Isabelle
  imports Driver Concurrency
begin

text \<open>
  \<^bold>\<open>A verification development of \<open>src/results_scnn_with_augmentation.py\<close>\<close>
  (MemoryOfZero/DeepSphere): the script that configures, runs and records
  training runs of a spherical CNN over a grid of
  \<open>(sigma, order, sigma_noise)\<close> triples.

  \<^bold>\<open>The program.\<close> One file, two parts. \<open>single_experiment\<close> (lines 13--119)
  loads data through \<open>experiment_helper\<close>, derives the sampling schedule
  \<open>nsides\<close> and the hyperparameters from \<open>order\<close>, builds an \<open>scnn\<close> model,
  removes the summary and checkpoint directories of the experiment's name,
  trains, and returns the test error. The entry point (lines 122--145) takes
  one triple from the command line or a grid from \<open>grid.pgrid()\<close>, runs the
  experiments one after the other and appends each result to the \<open>.npz\<close>
  archive of its \<open>sigma\<close> by reading, appending and rewriting it. All
  learning happens in external collaborators, which the development treats
  as parameters: every theorem holds for every collaborator.

  \<^bold>\<open>Theories and what they model.\<close>
  \<^item> \<open>Prelude\<close>: Python exceptions (\<open>exc\<close>), floats as \<open>rat\<close>, \<open>/\<close> and
    \<open>int()\<close>; the state-and-exception monad \<open>act\<close> in which effectful code is
    written (\<open>act_bind\<close> propagates an exception and keeps the state reached,
    as Python does); rule sets \<open>act_simps\<close>, \<open>py_simps\<close>; the predicates
    \<open>raises_only\<close> and \<open>result_indep\<close> with one rule per combinator.
  \<^item> \<open>Hyperparams\<close>: \<open>nsides_of\<close> (lines 29--42), \<open>order_params\<close>
    (66--88), \<open>eval_frequency_of\<close> (101--103), \<open>build_params\<close> and the
    record \<open>scnn_params\<close> for the \<open>params\<close> dictionary (48--103). The
    specification's view (a table over the closed enumeration
    \<open>pool_order\<close>, \<open>spec_table\<close>, \<open>spec_schedule\<close>) and the refinement lemmas.
  \<^item> \<open>Naming\<close>: Python's \<open>str\<close> of an int (\<open>py_str_int\<close>) and \<open>int()\<close> of
    a string on ASCII text (\<open>py_int_of_str\<close>), \<open>os.path.join\<close>, numpy's
    \<open>.npz\<close> naming, \<open>exp_name\<close> (17--18), the cleanup directories (108--109)
    and \<open>result_filepath\<close> (131, 138).
  \<^item> \<open>World\<close>: the machine state the script touches, a record of archive
    files, directories, standard output and the log of collaborator calls,
    and the library calls \<open>print\<close>, \<open>shutil.rmtree(ignore_errors=True)\<close>,
    \<open>os.makedirs(exist_ok=True)\<close>, \<open>os.path.isfile\<close>, \<open>np.load\<close>,
    \<open>np.savez\<close>; the predicates \<open>logs_within\<close> (which calls, in which order)
    and \<open>keeps_file\<close> (frame).
  \<^item> \<open>Archive\<close>: \<open>save_result\<close>, lines 138--145, and the per-\<open>sigma\<close> view
    \<open>stored_rows\<close>.
  \<^item> \<open>Experiment\<close>: the collaborator interface \<open>collab\<close> and
    \<open>single_experiment\<close>, lines 13--119, statement by statement, every
    print, cleanup and call included.
  \<^item> \<open>Driver\<close>: \<open>run_grid\<close> (134--145), \<open>parse_args\<close> (124--130) and
    \<open>main\<close> (122--145); the specification's view \<open>expected_rows\<close> of the
    archives after a run.
  \<^item> \<open>Concurrency\<close>: several processes of the script sharing the archives
    (specification, section 5). A process (\<open>proc\<close>) steps through the
    library calls of lines 140--145 (\<open>proc_step\<close>: \<open>os.path.isfile\<close>, then
    \<open>np.load\<close> or \<open>[]\<close>, then \<open>np.savez\<close>); \<open>sys_step\<close> lets any unfinished
    process take its next step, which is how the operating system may
    interleave them.

  \<^bold>\<open>What the lemmas show.\<close> The schedule implements the specification's
  halving formula for every base resolution; an unsupported order raises; the layer lists
  agree in length with the schedule; \<open>eval_frequency\<close> is the integer
  quotient and is zero for small training sets; with \<open>Nside = 1024\<close> the
  schedule is exact halvings. \<open>int()\<close> reads back \<open>str()\<close>, also inside
  the whitespace \<open>int()\<close> skips; experiment names
  and archive paths are injective and the file tested is the file written.
  A save appends, touches nothing else and fails on an unreadable archive.
  An experiment makes its collaborator calls as a prefix of the code's
  sequence (no retry, no reordering), stops at the call that raises (shown
  with the harness \<open>fail_at\<close>, which makes one call site raise), raises only
  the configuration error or a collaborator's exception, cleans its directories before training, returns
  the test error on success, and, for an unsupported order, raises only after
  loading the data. The loop over a grid leaves, per \<open>sigma\<close>, exactly one
  record per completed grid entry, in order; an exception is traced to the
  grid entry that raised it, and the archives keep exactly the records of the
  entries before it. The command line runs exactly the triple it names, or
  crashes with \<open>IndexError\<close> when it names only part of it; without
  arguments the whole grid of \<open>pgrid()\<close> is archived.
  Under concurrency, one process alone is exactly \<open>save_result\<close>; two
  processes on one \<open>sigma\<close> can lose a record (the hazard the specification
  names), but no interleaving invents, duplicates or reorders records before
  the old ones (an invariant by rule induction over \<open>sys_step\<close>).

  \<^bold>\<open>Choices and bounds.\<close> Python floats are exact rationals: the script only
  stores, prints and divides them, and the one float computation, line 103,
  is \<open>int(E * N / B / 200)\<close>, whose exact value is the integer quotient
  proved in \<open>Hyperparams\<close>; with binary64 arithmetic the two agree as long
  as \<open>E * N\<close> stays far below \<open>2^52\<close>, which holds for any training set that
  fits in memory. No loop needs fuel: the only loop is over the finite work
  list (structural recursion), and every collaborator is a total function
  whose failure is an \<open>Inl\<close> value. The fuel 3 of \<open>proc_run\<close> is the number
  of library calls in one save; \<open>save_result_process_refines\<close> shows it is
  enough.

  \<^bold>\<open>Not modelled.\<close> The collaborators' internals (\<open>scnn\<close> training,
  \<open>experiment_helper\<close>, \<open>grid.pgrid\<close>, \<open>nside2indexes\<close>), which are not
  in the source; their effects on the file system (\<open>fit\<close> writes summaries
  and checkpoints) are not in the world, so the cleanup lemma speaks of the
  state in which \<open>fit\<close> is called; Python's \<open>repr\<close> of a float and
  \<open>float()\<close> of a string are parameters (\<open>fmt_float\<close>, \<open>parse_float\<close>);
  \<open>int()\<close> is modelled on ASCII text only. Under concurrency each library
  call is atomic: a reader never sees a half-written \<open>.npz\<close> file, so the
  lost update is the only hazard modelled, not a torn read.
\<close>

section \<open>Properties across components\<close>

text \<open>
  C3. The specification's command-line scenario (section 8): invoking the
  script with \<open>sigma order sigma_noise\<close> runs exactly one experiment with
  that triple; when it completes, the archive of \<open>sigma\<close> holds one new
  record, the triple's order, noise and test error, after its previous
  records, and no other archive changes.
\<close>

theorem main_one_experiment:
  assumes "py_int_of_str a1 = Inr sigma" and "py_int_of_str a2 = Inr order"
    and "parse_float d a3 = Inr sn"
    and "main c d (prog # a1 # a2 # a3 # rest) w = (Inr (), w')"
  shows "stored_rows w' sigma = stored_rows w sigma @ [record_row order sn (experiment_value c sigma order sn)]
    \<and> (\<forall>s. s \<noteq> sigma \<longrightarrow> stored_rows w' s = stored_rows w s)"
proof -
  let ?w1 = "w\<lparr>dirs := dirs w \<union> set (dir_prefixes results_path)\<rparr>"
  have "run_grid c [(sigma, order, sn)] ?w1 = (Inr (), w')"
    using assms by (simp add: main_def parse_args_def py_nth_def act_simps act_bind_assoc)
  from run_grid_rows [OF this] have "stored_rows w' s = stored_rows ?w1 s @ expected_rows c [(sigma, order, sn)] s" for s
    by auto
  moreover have "stored_rows ?w1 s = stored_rows w s" for s by (simp add: stored_rows_def)
  ultimately show ?thesis by (simp add: expected_rows_def)
qed

theorem main_one_experiment_witness:
  "stored_rows (snd (main demo_collab demo_env [''prog'', ''3'', ''4'', ''0.1''] empty_world)) 3
     = [] @ [record_row 4 (1/10) (experiment_value demo_collab 3 4 (1/10))]"
proof -
  have a1: "py_int_of_str ''3'' = Inr 3" and a2: "py_int_of_str ''4'' = Inr 4"
    by (simp_all add: py_int_of_str_def py_strip_def py_isspace_def decimal_ok_def py_isdigit_def
        decimal_value_def digit_value_def)
  have a3: "parse_float demo_env ''0.1'' = Inr (1/10)" by (simp add: demo_env_def)
  have run: "main demo_collab demo_env [''prog'', ''3'', ''4'', ''0.1''] empty_world
      = (Inr (), snd (main demo_collab demo_env [''prog'', ''3'', ''4'', ''0.1''] empty_world))"
    by (simp add: main_single_eq [OF a1 a2 a3] act_simps act_bind_assoc single_experiment_def Let_def
        demo_collab_def nsides_of_def order_params_def build_params_def eval_frequency_of_def
        py_simps n_evaluations_def save_result_def archive_file_def empty_world_def)
  from main_one_experiment [OF a1 a2 a3 run] show ?thesis by (simp add: stored_rows_def empty_world_def)
qed

end
